theory Spec2Isabelle
  imports Main
begin

section \<open>The GitLab tool server: request dispatch of \<^verbatim>\<open>src/gitlab/index.ts\<close>\<close>

text \<open>
  The server registers two request handlers: one lists the tool catalog, the other
  dispatches a tool call to a function of \<^verbatim>\<open>gitlab-api.js\<close> after parsing the
  caller's arguments with a schema of \<^verbatim>\<open>schemas.js\<close>. Neither of the two imported
  modules is part of the sources at hand, so the schemas and the API functions are
  parameters of the model: every theorem about the dispatch holds for all of them.
\<close>

subsection \<open>JSON values and \<^verbatim>\<open>JSON.stringify(value, null, 2)\<close>\<close>

text \<open>
  JSON values as the runtime has them after \<^verbatim>\<open>response.json()\<close>. An object keeps its
  members in insertion order, which is the order in which they are printed.
  Numbers are the integral ones (identifiers, page numbers, counts); the dispatch
  never computes with a number.
\<close>

datatype json =
    JNull
  | JBool bool
  | JNum int
  | JStr string
  | JArr "json list"
  | JObj "(string \<times> json) list"

type_synonym json_object = "(string \<times> json) list"

definition nl :: string where
  "nl = [CHR 0x0A]"

text \<open>\<^verbatim>\<open>Array.prototype.join\<close> on an array of strings.\<close>

fun join :: "string \<Rightarrow> string list \<Rightarrow> string" where
  "join sep [] = []"
| "join sep [x] = x"
| "join sep (x # y # ys) = x @ sep @ join sep (y # ys)"

text \<open>Decimal digits of a natural number, as \<^verbatim>\<open>String(n)\<close> prints a non-negative integer.\<close>

fun show_nat :: "nat \<Rightarrow> string" where
  "show_nat n =
     (if n < 10 then [''0123456789'' ! n]
      else show_nat (n div 10) @ [''0123456789'' ! (n mod 10)])"

declare show_nat.simps [simp del]

definition show_int :: "int \<Rightarrow> string" where
  "show_int i = (if i < 0 then ''-'' @ show_nat (nat (- i)) else show_nat (nat i))"

text \<open>
  \<^verbatim>\<open>QuoteJSONString\<close>: the double quote and the backslash are escaped, the control
  characters below 0x20 are written as their short escape or as \<^verbatim>\<open>\u00XX\<close>, every other
  character stands for itself.
\<close>

definition hex_digit :: "nat \<Rightarrow> char" where
  "hex_digit n = ''0123456789abcdef'' ! n"

definition quote_char :: "char \<Rightarrow> string" where
  "quote_char c =
     (if c = CHR 0x22 then [CHR 0x5C, CHR 0x22]
      else if c = CHR 0x5C then [CHR 0x5C, CHR 0x5C]
      else if c = CHR 0x08 then [CHR 0x5C, CHR ''b'']
      else if c = CHR 0x09 then [CHR 0x5C, CHR ''t'']
      else if c = CHR 0x0A then [CHR 0x5C, CHR ''n'']
      else if c = CHR 0x0C then [CHR 0x5C, CHR ''f'']
      else if c = CHR 0x0D then [CHR 0x5C, CHR ''r'']
      else if (of_char c :: nat) < 0x20
        then [CHR 0x5C, CHR ''u'', CHR ''0'', CHR ''0'',
              hex_digit (of_char c div 16), hex_digit (of_char c mod 16)]
      else [c])"

definition quote :: "string \<Rightarrow> string" where
  "quote s = [CHR 0x22] @ concat (map quote_char s) @ [CHR 0x22]"

definition gap :: string where
  "gap = ''  ''"

text \<open>
  \<^verbatim>\<open>SerializeJSONProperty\<close> with the indentation reached so far; the gap is two
  spaces (the third argument of \<^verbatim>\<open>JSON.stringify\<close>). An empty array prints as
  \<^verbatim>\<open>[]\<close> and an empty object as \<^verbatim>\<open>{}\<close>; otherwise each element stands on its own line.
\<close>

fun serialize :: "string \<Rightarrow> json \<Rightarrow> string"
  and serialize_elements :: "string \<Rightarrow> json list \<Rightarrow> string list"
  and serialize_members :: "string \<Rightarrow> (string \<times> json) list \<Rightarrow> string list"
where
  "serialize ind JNull = ''null''"
| "serialize ind (JBool b) = (if b then ''true'' else ''false'')"
| "serialize ind (JNum i) = show_int i"
| "serialize ind (JStr s) = quote s"
| "serialize ind (JArr xs) =
     (if xs = [] then ''[]''
      else ''['' @ nl @ (ind @ gap)
           @ join ('','' @ nl @ (ind @ gap)) (serialize_elements (ind @ gap) xs)
           @ nl @ ind @ '']'')"
| "serialize ind (JObj ms) =
     (if ms = [] then ''{}''
      else ''{'' @ nl @ (ind @ gap)
           @ join ('','' @ nl @ (ind @ gap)) (serialize_members (ind @ gap) ms)
           @ nl @ ind @ ''}'')"
| "serialize_elements ind [] = []"
| "serialize_elements ind (x # xs) = serialize ind x # serialize_elements ind xs"
| "serialize_members ind [] = []"
| "serialize_members ind ((k, v) # ms) =
     (quote k @ '': '' @ serialize ind v) # serialize_members ind ms"

definition stringify :: "json \<Rightarrow> string" where
  "stringify v = serialize [] v"

subsection \<open>Failures and the response envelope\<close>

text \<open>
  A validation issue of the schema library: the path to the offending field (object keys
  and array indices) and a message. A thrown value is either a \<^verbatim>\<open>ZodError\<close> carrying
  its issues or any other \<^verbatim>\<open>Error\<close> with its message.
\<close>

datatype path_elem = Key string | Index nat

record zod_issue =
  path :: "path_elem list"
  message :: string

datatype error =
    Error string
  | ZodError "zod_issue list"

record content_item =
  type :: string
  "text" :: string

record response =
  content :: "content_item list"

text \<open>The value \<^verbatim>\<open>{ content: [{ type: "text", text: t }] }\<close> every case returns.\<close>

definition text_response :: "string \<Rightarrow> response" where
  "text_response t = \<lparr>content = [\<lparr>type = ''text'', text = t\<rparr>]\<rparr>"

subsection \<open>Asynchronous steps over the remote state\<close>

text \<open>
  An awaited computation runs against the state \<open>'w\<close> of the world outside the server
  (the GitLab instance) and either resolves to a value or rejects with a thrown value;
  either way it may have changed that state.
\<close>

type_synonym ('w, 'a) eff = "'w \<Rightarrow> (error + 'a) \<times> 'w"

definition return_value :: "'a \<Rightarrow> ('w, 'a) eff" where
  "return_value x w = (Inr x, w)"

definition throw :: "error \<Rightarrow> ('w, 'a) eff" where
  "throw e w = (Inl e, w)"

definition await :: "('w, 'a) eff \<Rightarrow> ('a \<Rightarrow> ('w, 'b) eff) \<Rightarrow> ('w, 'b) eff" where
  "await m k w = (case m w of (Inl e, w') \<Rightarrow> (Inl e, w') | (Inr x, w') \<Rightarrow> k x w')"

subsection \<open>Parsed arguments\<close>

text \<open>
  The fields the handler reads from the parsed arguments of each schema, with the types
  the tool documentation gives them. An optional field that is absent is \<open>None\<close>.
\<close>

record fork_repository_args =
  project_id :: string
  namespace :: "string option"

record create_branch_args =
  project_id :: string
  branch :: string
  ref :: "string option"

record search_repositories_args =
  search :: string
  page :: "int option"
  per_page :: "int option"

record create_repository_args =
  name :: string
  description :: "string option"
  visibility :: "string option"
  initialize_with_readme :: "bool option"

record get_file_contents_args =
  project_id :: string
  file_path :: string
  ref :: "string option"

record get_repository_tree_args =
  project_id :: string
  path :: "string option"
  ref :: "string option"
  recursive :: "bool option"
  per_page :: "int option"

record create_or_update_file_args =
  project_id :: string
  file_path :: string
  content :: string
  commit_message :: string
  branch :: string
  previous_path :: "string option"

record file_entry =
  file_path :: string
  content :: string

record push_files_args =
  project_id :: string
  branch :: string
  files :: "file_entry list"
  commit_message :: string

record create_issue_args =
  project_id :: string
  title :: string
  description :: "string option"
  assignee_ids :: "int list option"
  labels :: "string list option"
  milestone_id :: "int option"

record create_merge_request_args =
  project_id :: string
  title :: string
  description :: "string option"
  source_branch :: string
  target_branch :: string
  draft :: "bool option"
  allow_collaboration :: "bool option"

text \<open>
  \<^verbatim>\<open>Schema.parse(arguments)\<close> returns the parsed arguments or throws a \<^verbatim>\<open>ZodError\<close>
  with at least the issues found. The ten schemas are imported from
  \<^verbatim>\<open>schemas.js\<close>; here each is its parse function.
\<close>

type_synonym 'a schema = "json_object \<Rightarrow> zod_issue list + 'a"

record schemas =
  CreateOrUpdateFileSchema :: "create_or_update_file_args schema"
  SearchRepositoriesSchema :: "search_repositories_args schema"
  CreateRepositorySchema :: "create_repository_args schema"
  GetFileContentsSchema :: "get_file_contents_args schema"
  GetRepositoryTreeSchema :: "get_repository_tree_args schema"
  PushFilesSchema :: "push_files_args schema"
  CreateIssueSchema :: "create_issue_args schema"
  CreateMergeRequestSchema :: "create_merge_request_args schema"
  ForkRepositorySchema :: "fork_repository_args schema"
  CreateBranchSchema :: "create_branch_args schema"

definition parse :: "'a schema \<Rightarrow> json_object \<Rightarrow> ('w, 'a) eff" where
  "parse schema a =
     (case schema a of Inl issues \<Rightarrow> throw (ZodError issues) | Inr args \<Rightarrow> return_value args)"

subsection \<open>The functions of \<^verbatim>\<open>gitlab-api.js\<close>\<close>

text \<open>
  The option objects the handler builds for the API functions, and an entry of the
  repository tree as GitLab returns it (the handler reads \<^verbatim>\<open>type\<close> and \<^verbatim>\<open>path\<close>).
\<close>

record branch_options =
  name :: string
  ref :: string

record file_action =
  path :: string
  content :: string

record issue_options =
  title :: string
  description :: "string option"
  assignee_ids :: "int list option"
  labels :: "string list option"
  milestone_id :: "int option"

record merge_request_options =
  title :: string
  description :: "string option"
  source_branch :: string
  target_branch :: string
  draft :: "bool option"
  allow_collaboration :: "bool option"

record tree_item =
  id' :: string
  name :: string
  type :: string
  path :: string
  mode :: string

text \<open>
  The eleven imported API functions, each with the arguments the handler passes. Each
  one is an awaited call that resolves to the parsed body of GitLab's answer or rejects.
\<close>

record 'w gitlab_api =
  forkProject :: "string \<Rightarrow> string option \<Rightarrow> ('w, json) eff"
  getDefaultBranchRef :: "string \<Rightarrow> ('w, string) eff"
  createBranch :: "string \<Rightarrow> branch_options \<Rightarrow> ('w, json) eff"
  searchProjects :: "string \<Rightarrow> int option \<Rightarrow> int option \<Rightarrow> ('w, json) eff"
  createRepository :: "create_repository_args \<Rightarrow> ('w, json) eff"
  getFileContents :: "string \<Rightarrow> string \<Rightarrow> string option \<Rightarrow> ('w, json) eff"
  getRepositoryTree ::
    "string \<Rightarrow> string option \<Rightarrow> string option \<Rightarrow> bool option \<Rightarrow> int option
      \<Rightarrow> ('w, tree_item list) eff"
  createOrUpdateFile ::
    "string \<Rightarrow> string \<Rightarrow> string \<Rightarrow> string \<Rightarrow> string \<Rightarrow> string option \<Rightarrow> ('w, json) eff"
  createCommit :: "string \<Rightarrow> string \<Rightarrow> string \<Rightarrow> file_action list \<Rightarrow> ('w, json) eff"
  createIssue :: "string \<Rightarrow> issue_options \<Rightarrow> ('w, json) eff"
  createMergeRequest :: "string \<Rightarrow> merge_request_options \<Rightarrow> ('w, json) eff"

subsection \<open>Server configuration and the tool catalog\<close>

text \<open>
  The only module-level variable the handlers can read: \<^verbatim>\<open>isReadOnly\<close>, the value of
  the \<^verbatim>\<open>--readonly\<close> flag, fixed when the process starts.
\<close>

record server_config =
  isReadOnly :: bool

text \<open>
  An advertised tool. Its input schema is the JSON schema derived from one of the ten
  imported schemas; the catalog entry records which one.
\<close>

datatype schema_name =
    OfCreateOrUpdateFileSchema
  | OfSearchRepositoriesSchema
  | OfCreateRepositorySchema
  | OfGetFileContentsSchema
  | OfGetRepositoryTreeSchema
  | OfPushFilesSchema
  | OfCreateIssueSchema
  | OfCreateMergeRequestSchema
  | OfForkRepositorySchema
  | OfCreateBranchSchema

record tool =
  name :: string
  description :: string
  inputSchema :: schema_name


definition tools :: "tool list" where
  "tools =
    [\<lparr>tool.name = ''create_or_update_file'',
      tool.description = ''Create or update a single file in a GitLab project'',
      inputSchema = OfCreateOrUpdateFileSchema\<rparr>,
     \<lparr>tool.name = ''search_repositories'',
      tool.description = ''Search for GitLab projects'',
      inputSchema = OfSearchRepositoriesSchema\<rparr>,
     \<lparr>tool.name = ''create_repository'',
      tool.description = ''Create a new GitLab project'',
      inputSchema = OfCreateRepositorySchema\<rparr>,
     \<lparr>tool.name = ''get_file_contents'',
      tool.description = ''Get the contents of a file or directory from a GitLab project'',
      inputSchema = OfGetFileContentsSchema\<rparr>,
     \<lparr>tool.name = ''get_repository_tree'',
      tool.description = ''Get the directory tree of a GitLab project'',
      inputSchema = OfGetRepositoryTreeSchema\<rparr>,
     \<lparr>tool.name = ''push_files'',
      tool.description = ''Push multiple files to a GitLab project in a single commit'',
      inputSchema = OfPushFilesSchema\<rparr>,
     \<lparr>tool.name = ''create_issue'',
      tool.description = ''Create a new issue in a GitLab project'',
      inputSchema = OfCreateIssueSchema\<rparr>,
     \<lparr>tool.name = ''create_merge_request'',
      tool.description = ''Create a new merge request in a GitLab project'',
      inputSchema = OfCreateMergeRequestSchema\<rparr>,
     \<lparr>tool.name = ''fork_repository'',
      tool.description = ''Fork a GitLab project to your account or specified namespace'',
      inputSchema = OfForkRepositorySchema\<rparr>,
     \<lparr>tool.name = ''create_branch'',
      tool.description = ''Create a new branch in a GitLab project'',
      inputSchema = OfCreateBranchSchema\<rparr>]"


subsection \<open>The handler of \<^verbatim>\<open>CallToolRequestSchema\<close>\<close>

record call_tool_params =
  name :: string
  arguments :: "json_object option"

record call_tool_request =
  params :: call_tool_params

text \<open>
  The listing of \<^verbatim>\<open>get_repository_tree\<close>: the two \<^verbatim>\<open>filter\<close> calls, then the two
  \<^verbatim>\<open>forEach\<close> loops appending to \<^verbatim>\<open>formattedTree\<close>.
\<close>

definition format_tree :: "tree_item list \<Rightarrow> string" where
  "format_tree tree =
     (let formattedTree = ''Repository directory structure:'' @ nl @ nl;
          directories = filter (\<lambda>item. tree_item.type item = ''tree'') tree;
          files = filter (\<lambda>item. tree_item.type item = ''blob'') tree;
          formattedTree =
            foldl (\<lambda>acc dir. acc @ ''Folder: '' @ tree_item.path dir @ ''/'' @ nl)
              formattedTree directories;
          formattedTree =
            foldl (\<lambda>acc file. acc @ ''File: '' @ tree_item.path file @ nl)
              formattedTree files
      in formattedTree)"

text \<open>The cases of the \<^verbatim>\<open>switch\<close>, each on the arguments object of the request.\<close>

definition case_fork_repository ::
  "schemas \<Rightarrow> 'w gitlab_api \<Rightarrow> json_object \<Rightarrow> ('w, response) eff" where
  "case_fork_repository sch api a =
     await (parse (ForkRepositorySchema sch) a) (\<lambda>args.
     await (forkProject api (fork_repository_args.project_id args) (namespace args)) (\<lambda>fork.
     return_value (text_response (stringify fork))))"

text \<open>
  \<^verbatim>\<open>if (!ref)\<close> holds for an absent \<^verbatim>\<open>ref\<close> and for the empty string, the one
  string that is falsy.
\<close>

definition case_create_branch ::
  "schemas \<Rightarrow> 'w gitlab_api \<Rightarrow> json_object \<Rightarrow> ('w, response) eff" where
  "case_create_branch sch api a =
     await (parse (CreateBranchSchema sch) a) (\<lambda>args.
     await (case create_branch_args.ref args of
              None \<Rightarrow> getDefaultBranchRef api (create_branch_args.project_id args)
            | Some r \<Rightarrow>
                if r = [] then getDefaultBranchRef api (create_branch_args.project_id args)
                else return_value r) (\<lambda>ref.
     await (createBranch api (create_branch_args.project_id args)
              \<lparr>branch_options.name = create_branch_args.branch args,
               branch_options.ref = ref\<rparr>) (\<lambda>branch.
     return_value (text_response (stringify branch)))))"

definition case_search_repositories ::
  "schemas \<Rightarrow> 'w gitlab_api \<Rightarrow> json_object \<Rightarrow> ('w, response) eff" where
  "case_search_repositories sch api a =
     await (parse (SearchRepositoriesSchema sch) a) (\<lambda>args.
     await (searchProjects api (search args) (page args)
              (search_repositories_args.per_page args)) (\<lambda>results.
     return_value (text_response (stringify results))))"

definition case_create_repository ::
  "schemas \<Rightarrow> 'w gitlab_api \<Rightarrow> json_object \<Rightarrow> ('w, response) eff" where
  "case_create_repository sch api a =
     await (parse (CreateRepositorySchema sch) a) (\<lambda>args.
     await (createRepository api args) (\<lambda>repository.
     return_value (text_response (stringify repository))))"

definition case_get_file_contents ::
  "schemas \<Rightarrow> 'w gitlab_api \<Rightarrow> json_object \<Rightarrow> ('w, response) eff" where
  "case_get_file_contents sch api a =
     await (parse (GetFileContentsSchema sch) a) (\<lambda>args.
     await (getFileContents api (get_file_contents_args.project_id args)
              (get_file_contents_args.file_path args)
              (get_file_contents_args.ref args)) (\<lambda>contents.
     return_value (text_response (stringify contents))))"

definition case_get_repository_tree ::
  "schemas \<Rightarrow> 'w gitlab_api \<Rightarrow> json_object \<Rightarrow> ('w, response) eff" where
  "case_get_repository_tree sch api a =
     await (parse (GetRepositoryTreeSchema sch) a) (\<lambda>args.
     await (getRepositoryTree api (get_repository_tree_args.project_id args)
              (get_repository_tree_args.path args)
              (get_repository_tree_args.ref args)
              (recursive args)
              (get_repository_tree_args.per_page args)) (\<lambda>tree.
     return_value (text_response (format_tree tree))))"

definition case_create_or_update_file ::
  "schemas \<Rightarrow> 'w gitlab_api \<Rightarrow> json_object \<Rightarrow> ('w, response) eff" where
  "case_create_or_update_file sch api a =
     await (parse (CreateOrUpdateFileSchema sch) a) (\<lambda>args.
     await (createOrUpdateFile api (create_or_update_file_args.project_id args)
              (create_or_update_file_args.file_path args)
              (create_or_update_file_args.content args)
              (create_or_update_file_args.commit_message args)
              (create_or_update_file_args.branch args)
              (previous_path args)) (\<lambda>result.
     return_value (text_response (stringify result))))"

definition case_push_files ::
  "schemas \<Rightarrow> 'w gitlab_api \<Rightarrow> json_object \<Rightarrow> ('w, response) eff" where
  "case_push_files sch api a =
     await (parse (PushFilesSchema sch) a) (\<lambda>args.
     await (createCommit api (push_files_args.project_id args)
              (push_files_args.commit_message args)
              (push_files_args.branch args)
              (map (\<lambda>f. \<lparr>file_action.path = file_entry.file_path f,
                          file_action.content = file_entry.content f\<rparr>)
                 (files args))) (\<lambda>result.
     return_value (text_response (stringify result))))"

text \<open>
  \<^verbatim>\<open>const { project_id, ...options } = args\<close>: the options are the parsed arguments
  without \<^verbatim>\<open>project_id\<close>.
\<close>

definition case_create_issue ::
  "schemas \<Rightarrow> 'w gitlab_api \<Rightarrow> json_object \<Rightarrow> ('w, response) eff" where
  "case_create_issue sch api a =
     await (parse (CreateIssueSchema sch) a) (\<lambda>args.
     await (createIssue api (create_issue_args.project_id args)
              \<lparr>issue_options.title = create_issue_args.title args,
               issue_options.description = create_issue_args.description args,
               issue_options.assignee_ids = create_issue_args.assignee_ids args,
               issue_options.labels = create_issue_args.labels args,
               issue_options.milestone_id = create_issue_args.milestone_id args\<rparr>) (\<lambda>issue.
     return_value (text_response (stringify issue))))"

definition case_create_merge_request ::
  "schemas \<Rightarrow> 'w gitlab_api \<Rightarrow> json_object \<Rightarrow> ('w, response) eff" where
  "case_create_merge_request sch api a =
     await (parse (CreateMergeRequestSchema sch) a) (\<lambda>args.
     await (createMergeRequest api (create_merge_request_args.project_id args)
              \<lparr>merge_request_options.title = create_merge_request_args.title args,
               merge_request_options.description = create_merge_request_args.description args,
               merge_request_options.source_branch = create_merge_request_args.source_branch args,
               merge_request_options.target_branch = create_merge_request_args.target_branch args,
               merge_request_options.draft = create_merge_request_args.draft args,
               merge_request_options.allow_collaboration =
                 create_merge_request_args.allow_collaboration args\<rparr>) (\<lambda>mergeRequest.
     return_value (text_response (stringify mergeRequest))))"

text \<open>
  The body of the \<^verbatim>\<open>try\<close> block: the check that arguments are present (an
  arguments object is truthy, so \<^verbatim>\<open>!request.params.arguments\<close> holds exactly when
  the field is absent), then the \<^verbatim>\<open>switch\<close> on the tool name in the order of its
  cases. The handler is a closure over
  the module's variables, so the configuration is in its scope.
\<close>

definition try_block ::
  "server_config \<Rightarrow> schemas \<Rightarrow> 'w gitlab_api \<Rightarrow> call_tool_request \<Rightarrow> ('w, response) eff" where
  "try_block cfg sch api request =
     (case arguments (params request) of
        None \<Rightarrow> throw (Error ''Arguments are required'')
      | Some a \<Rightarrow>
          let n = call_tool_params.name (params request) in
          if n = ''fork_repository'' then case_fork_repository sch api a
          else if n = ''create_branch'' then case_create_branch sch api a
          else if n = ''search_repositories'' then case_search_repositories sch api a
          else if n = ''create_repository'' then case_create_repository sch api a
          else if n = ''get_file_contents'' then case_get_file_contents sch api a
          else if n = ''get_repository_tree'' then case_get_repository_tree sch api a
          else if n = ''create_or_update_file'' then case_create_or_update_file sch api a
          else if n = ''push_files'' then case_push_files sch api a
          else if n = ''create_issue'' then case_create_issue sch api a
          else if n = ''create_merge_request'' then case_create_merge_request sch api a
          else throw (Error (''Unknown tool: '' @ n)))"

text \<open>
  The \<^verbatim>\<open>catch\<close> clause: a \<^verbatim>\<open>ZodError\<close> is replaced by an \<^verbatim>\<open>Error\<close> whose message
  lists, for every issue, the path joined with dots, a colon and the issue's message;
  anything else is thrown again as it is.
\<close>

definition path_elem_string :: "path_elem \<Rightarrow> string" where
  "path_elem_string p = (case p of Key k \<Rightarrow> k | Index i \<Rightarrow> show_nat i)"

definition issue_text :: "zod_issue \<Rightarrow> string" where
  "issue_text e = join ''.'' (map path_elem_string (zod_issue.path e)) @ '': '' @ message e"

definition catch_block :: "error \<Rightarrow> error" where
  "catch_block err =
     (case err of
        ZodError errors \<Rightarrow> Error (''Invalid arguments: '' @ join '', '' (map issue_text errors))
      | _ \<Rightarrow> err)"

definition call_tool ::
  "server_config \<Rightarrow> schemas \<Rightarrow> 'w gitlab_api \<Rightarrow> call_tool_request \<Rightarrow> ('w, response) eff" where
  "call_tool cfg sch api request w =
     (case try_block cfg sch api request w of
        (Inl err, w') \<Rightarrow> (Inl (catch_block err), w')
      | (Inr r, w') \<Rightarrow> (Inr r, w'))"

subsection \<open>The server as a whole\<close>





subsection \<open>Observing the API calls of a request\<close>

text \<open>
  To state which API functions a request invokes, the API is wrapped the way a test
  double is: every invocation is appended to a transcript together with its outcome,
  and is otherwise passed on unchanged.
\<close>

datatype api_call =
    ForkProject string "string option"
  | GetDefaultBranchRef string
  | CreateBranch string branch_options
  | SearchProjects string "int option" "int option"
  | CreateRepository create_repository_args
  | GetFileContents string string "string option"
  | GetRepositoryTree string "string option" "string option" "bool option" "int option"
  | CreateOrUpdateFile string string string string string "string option"
  | CreateCommit string string string "file_action list"
  | CreateIssue string issue_options
  | CreateMergeRequest string merge_request_options

datatype api_value = Body json | BranchRef string | Tree "tree_item list"

type_synonym exchange = "api_call \<times> (error + api_value)"

definition logged ::
  "api_call \<Rightarrow> ('a \<Rightarrow> api_value) \<Rightarrow> ('w, 'a) eff \<Rightarrow> (exchange list \<times> 'w, 'a) eff" where
  "logged c tag f s =
     (case f (snd s) of (r, w') \<Rightarrow> (r, (fst s @ [(c, map_sum id tag r)], w')))"

definition recording :: "'w gitlab_api \<Rightarrow> (exchange list \<times> 'w) gitlab_api" where
  "recording api =
    \<lparr>forkProject = (\<lambda>p n. logged (ForkProject p n) Body (forkProject api p n)),
     getDefaultBranchRef = (\<lambda>p. logged (GetDefaultBranchRef p) BranchRef (getDefaultBranchRef api p)),
     createBranch = (\<lambda>p opts. logged (CreateBranch p opts) Body (createBranch api p opts)),
     searchProjects =
       (\<lambda>q pg pp. logged (SearchProjects q pg pp) Body (searchProjects api q pg pp)),
     createRepository = (\<lambda>args. logged (CreateRepository args) Body (createRepository api args)),
     getFileContents =
       (\<lambda>p f r. logged (GetFileContents p f r) Body (getFileContents api p f r)),
     getRepositoryTree =
       (\<lambda>p d r rc pp. logged (GetRepositoryTree p d r rc pp) Tree
                        (getRepositoryTree api p d r rc pp)),
     createOrUpdateFile =
       (\<lambda>p f c m b pv. logged (CreateOrUpdateFile p f c m b pv) Body
                         (createOrUpdateFile api p f c m b pv)),
     createCommit =
       (\<lambda>p m b fs. logged (CreateCommit p m b fs) Body (createCommit api p m b fs)),
     createIssue = (\<lambda>p opts. logged (CreateIssue p opts) Body (createIssue api p opts)),
     createMergeRequest =
       (\<lambda>p opts. logged (CreateMergeRequest p opts) Body (createMergeRequest api p opts))\<rparr>"

definition api_function :: "api_call \<Rightarrow> string" where
  "api_function c =
     (case c of
        ForkProject _ _ \<Rightarrow> ''forkProject''
      | GetDefaultBranchRef _ \<Rightarrow> ''getDefaultBranchRef''
      | CreateBranch _ _ \<Rightarrow> ''createBranch''
      | SearchProjects _ _ _ \<Rightarrow> ''searchProjects''
      | CreateRepository _ \<Rightarrow> ''createRepository''
      | GetFileContents _ _ _ \<Rightarrow> ''getFileContents''
      | GetRepositoryTree _ _ _ _ _ \<Rightarrow> ''getRepositoryTree''
      | CreateOrUpdateFile _ _ _ _ _ _ \<Rightarrow> ''createOrUpdateFile''
      | CreateCommit _ _ _ _ \<Rightarrow> ''createCommit''
      | CreateIssue _ _ \<Rightarrow> ''createIssue''
      | CreateMergeRequest _ _ \<Rightarrow> ''createMergeRequest'')"

text \<open>
  The schema of an operation is the one the catalog advertises under the operation's
  name. \<open>schema_check\<close> runs it on an arguments object and gives the issues when the
  object is rejected.
\<close>

definition advertised_schema :: "string \<Rightarrow> schema_name option" where
  "advertised_schema n = map_of (map (\<lambda>t. (tool.name t, inputSchema t)) tools) n"

definition rejects :: "'a schema \<Rightarrow> json_object \<Rightarrow> zod_issue list option" where
  "rejects schema a = (case schema a of Inl issues \<Rightarrow> Some issues | Inr _ \<Rightarrow> None)"

fun schema_check :: "schemas \<Rightarrow> schema_name \<Rightarrow> json_object \<Rightarrow> zod_issue list option" where
  "schema_check sch OfCreateOrUpdateFileSchema a = rejects (CreateOrUpdateFileSchema sch) a"
| "schema_check sch OfSearchRepositoriesSchema a = rejects (SearchRepositoriesSchema sch) a"
| "schema_check sch OfCreateRepositorySchema a = rejects (CreateRepositorySchema sch) a"
| "schema_check sch OfGetFileContentsSchema a = rejects (GetFileContentsSchema sch) a"
| "schema_check sch OfGetRepositoryTreeSchema a = rejects (GetRepositoryTreeSchema sch) a"
| "schema_check sch OfPushFilesSchema a = rejects (PushFilesSchema sch) a"
| "schema_check sch OfCreateIssueSchema a = rejects (CreateIssueSchema sch) a"
| "schema_check sch OfCreateMergeRequestSchema a = rejects (CreateMergeRequestSchema sch) a"
| "schema_check sch OfForkRepositorySchema a = rejects (ForkRepositorySchema sch) a"
| "schema_check sch OfCreateBranchSchema a = rejects (CreateBranchSchema sch) a"

definition request_for :: "string \<Rightarrow> json_object option \<Rightarrow> call_tool_request" where
  "request_for n a = \<lparr>params = \<lparr>call_tool_params.name = n, arguments = a\<rparr>\<rparr>"

subsection \<open>The documented schemas and a mocked GitLab\<close>

text \<open>
  Modelled from the spec: the ten schemas of \<^verbatim>\<open>schemas.js\<close>, which is not among the
  sources. Each is an object schema with the fields, types and optionality that the
  tool documentation lists for the operation (and the fields \<^verbatim>\<open>project_id\<close> and
  \<^verbatim>\<open>per_page\<close> that the \<^verbatim>\<open>get_repository_tree\<close> case reads). A missing required field
  is reported as \<^verbatim>\<open>Required\<close>, a value of the wrong type by the expected and the
  received type; the issues of all fields are collected in the order of the fields.
\<close>

definition received :: "json \<Rightarrow> string" where
  "received v =
     (case v of
        JNull \<Rightarrow> ''null''
      | JBool _ \<Rightarrow> ''boolean''
      | JNum _ \<Rightarrow> ''number''
      | JStr _ \<Rightarrow> ''string''
      | JArr _ \<Rightarrow> ''array''
      | JObj _ \<Rightarrow> ''object'')"

definition invalid_type :: "string \<Rightarrow> path_elem list \<Rightarrow> json option \<Rightarrow> zod_issue list" where
  "invalid_type expected p v =
     (case v of
        None \<Rightarrow> [\<lparr>zod_issue.path = p, message = ''Required''\<rparr>]
      | Some j \<Rightarrow>
          [\<lparr>zod_issue.path = p,
            message = ''Expected '' @ expected @ '', received '' @ received j\<rparr>])"

type_synonym 'a zod_type = "path_elem list \<Rightarrow> json option \<Rightarrow> zod_issue list + 'a"

definition z_string :: "string zod_type" where
  "z_string p v = (case v of Some (JStr s) \<Rightarrow> Inr s | _ \<Rightarrow> Inl (invalid_type ''string'' p v))"

definition z_number :: "int zod_type" where
  "z_number p v = (case v of Some (JNum i) \<Rightarrow> Inr i | _ \<Rightarrow> Inl (invalid_type ''number'' p v))"

definition z_boolean :: "bool zod_type" where
  "z_boolean p v = (case v of Some (JBool b) \<Rightarrow> Inr b | _ \<Rightarrow> Inl (invalid_type ''boolean'' p v))"

definition z_optional :: "'a zod_type \<Rightarrow> 'a option zod_type" where
  "z_optional t p v = (case v of None \<Rightarrow> Inr None | Some _ \<Rightarrow> map_sum (\<lambda>is. is) Some (t p v))"

definition z_enum :: "string list \<Rightarrow> string zod_type" where
  "z_enum allowed p v =
     (case v of
        Some (JStr s) \<Rightarrow>
          if s \<in> set allowed then Inr s
          else Inl [\<lparr>zod_issue.path = p, message = ''Invalid enum value''\<rparr>]
      | _ \<Rightarrow> Inl (invalid_type ''string'' p v))"

definition issues_of :: "zod_issue list + 'a \<Rightarrow> zod_issue list" where
  "issues_of r = (case r of Inl is \<Rightarrow> is | Inr _ \<Rightarrow> [])"

fun z_elements :: "'a zod_type \<Rightarrow> path_elem list \<Rightarrow> nat \<Rightarrow> json list \<Rightarrow> zod_issue list + 'a list" where
  "z_elements t p i [] = Inr []"
| "z_elements t p i (x # xs) =
     (case (t (p @ [Index i]) (Some x), z_elements t p (Suc i) xs) of
        (Inr y, Inr ys) \<Rightarrow> Inr (y # ys)
      | (r, rs) \<Rightarrow> Inl (issues_of r @ issues_of rs))"

definition z_array :: "'a zod_type \<Rightarrow> 'a list zod_type" where
  "z_array t p v =
     (case v of Some (JArr xs) \<Rightarrow> z_elements t p 0 xs | _ \<Rightarrow> Inl (invalid_type ''array'' p v))"

definition field :: "'a zod_type \<Rightarrow> string \<Rightarrow> path_elem list \<Rightarrow> json_object \<Rightarrow> zod_issue list + 'a" where
  "field t k p a = t (p @ [Key k]) (map_of a k)"

definition z_file_entry :: "file_entry zod_type" where
  "z_file_entry p v =
     (case v of
        Some (JObj a) \<Rightarrow>
          (case (field z_string ''file_path'' p a, field z_string ''content'' p a) of
             (Inr f, Inr c) \<Rightarrow> Inr \<lparr>file_entry.file_path = f, file_entry.content = c\<rparr>
           | (r1, r2) \<Rightarrow> Inl (issues_of r1 @ issues_of r2))
      | _ \<Rightarrow> Inl (invalid_type ''object'' p v))"

definition documented_schemas :: schemas where
  "documented_schemas =
    \<lparr>CreateOrUpdateFileSchema = (\<lambda>a.
       case (field z_string ''project_id'' [] a, field z_string ''file_path'' [] a,
             field z_string ''content'' [] a, field z_string ''commit_message'' [] a,
             field z_string ''branch'' [] a,
             field (z_optional z_string) ''previous_path'' [] a) of
         (Inr p, Inr f, Inr c, Inr m, Inr b, Inr pv) \<Rightarrow>
           Inr \<lparr>create_or_update_file_args.project_id = p,
                create_or_update_file_args.file_path = f,
                create_or_update_file_args.content = c,
                create_or_update_file_args.commit_message = m,
                create_or_update_file_args.branch = b,
                previous_path = pv\<rparr>
       | (r1, r2, r3, r4, r5, r6) \<Rightarrow>
           Inl (issues_of r1 @ issues_of r2 @ issues_of r3 @ issues_of r4 @ issues_of r5
                @ issues_of r6)),
     SearchRepositoriesSchema = (\<lambda>a.
       case (field z_string ''search'' [] a, field (z_optional z_number) ''page'' [] a,
             field (z_optional z_number) ''per_page'' [] a) of
         (Inr q, Inr pg, Inr pp) \<Rightarrow>
           Inr \<lparr>search = q, page = pg, search_repositories_args.per_page = pp\<rparr>
       | (r1, r2, r3) \<Rightarrow> Inl (issues_of r1 @ issues_of r2 @ issues_of r3)),
     CreateRepositorySchema = (\<lambda>a.
       case (field z_string ''name'' [] a, field (z_optional z_string) ''description'' [] a,
             field (z_optional (z_enum [''private'', ''internal'', ''public''])) ''visibility'' [] a,
             field (z_optional z_boolean) ''initialize_with_readme'' [] a) of
         (Inr n, Inr d, Inr v, Inr i) \<Rightarrow>
           Inr \<lparr>create_repository_args.name = n, create_repository_args.description = d,
                visibility = v, initialize_with_readme = i\<rparr>
       | (r1, r2, r3, r4) \<Rightarrow> Inl (issues_of r1 @ issues_of r2 @ issues_of r3 @ issues_of r4)),
     GetFileContentsSchema = (\<lambda>a.
       case (field z_string ''project_id'' [] a, field z_string ''file_path'' [] a,
             field (z_optional z_string) ''ref'' [] a) of
         (Inr p, Inr f, Inr r) \<Rightarrow>
           Inr \<lparr>get_file_contents_args.project_id = p, get_file_contents_args.file_path = f,
                get_file_contents_args.ref = r\<rparr>
       | (r1, r2, r3) \<Rightarrow> Inl (issues_of r1 @ issues_of r2 @ issues_of r3)),
     GetRepositoryTreeSchema = (\<lambda>a.
       case (field z_string ''project_id'' [] a, field (z_optional z_string) ''path'' [] a,
             field (z_optional z_string) ''ref'' [] a,
             field (z_optional z_boolean) ''recursive'' [] a,
             field (z_optional z_number) ''per_page'' [] a) of
         (Inr p, Inr d, Inr r, Inr rc, Inr pp) \<Rightarrow>
           Inr \<lparr>get_repository_tree_args.project_id = p, get_repository_tree_args.path = d,
                get_repository_tree_args.ref = r, recursive = rc,
                get_repository_tree_args.per_page = pp\<rparr>
       | (r1, r2, r3, r4, r5) \<Rightarrow>
           Inl (issues_of r1 @ issues_of r2 @ issues_of r3 @ issues_of r4 @ issues_of r5)),
     PushFilesSchema = (\<lambda>a.
       case (field z_string ''project_id'' [] a, field z_string ''branch'' [] a,
             field (z_array z_file_entry) ''files'' [] a,
             field z_string ''commit_message'' [] a) of
         (Inr p, Inr b, Inr fs, Inr m) \<Rightarrow>
           Inr \<lparr>push_files_args.project_id = p, push_files_args.branch = b, files = fs,
                push_files_args.commit_message = m\<rparr>
       | (r1, r2, r3, r4) \<Rightarrow> Inl (issues_of r1 @ issues_of r2 @ issues_of r3 @ issues_of r4)),
     CreateIssueSchema = (\<lambda>a.
       case (field z_string ''project_id'' [] a, field z_string ''title'' [] a,
             field (z_optional z_string) ''description'' [] a,
             field (z_optional (z_array z_number)) ''assignee_ids'' [] a,
             field (z_optional (z_array z_string)) ''labels'' [] a,
             field (z_optional z_number) ''milestone_id'' [] a) of
         (Inr p, Inr t, Inr d, Inr as, Inr ls, Inr m) \<Rightarrow>
           Inr \<lparr>create_issue_args.project_id = p, create_issue_args.title = t,
                create_issue_args.description = d, create_issue_args.assignee_ids = as,
                create_issue_args.labels = ls, create_issue_args.milestone_id = m\<rparr>
       | (r1, r2, r3, r4, r5, r6) \<Rightarrow>
           Inl (issues_of r1 @ issues_of r2 @ issues_of r3 @ issues_of r4 @ issues_of r5
                @ issues_of r6)),
     CreateMergeRequestSchema = (\<lambda>a.
       case (field z_string ''project_id'' [] a, field z_string ''title'' [] a,
             field (z_optional z_string) ''description'' [] a,
             field z_string ''source_branch'' [] a, field z_string ''target_branch'' [] a,
             field (z_optional z_boolean) ''draft'' [] a,
             field (z_optional z_boolean) ''allow_collaboration'' [] a) of
         (Inr p, Inr t, Inr d, Inr sb, Inr tb, Inr dr, Inr ac) \<Rightarrow>
           Inr \<lparr>create_merge_request_args.project_id = p, create_merge_request_args.title = t,
                create_merge_request_args.description = d,
                create_merge_request_args.source_branch = sb,
                create_merge_request_args.target_branch = tb,
                create_merge_request_args.draft = dr,
                create_merge_request_args.allow_collaboration = ac\<rparr>
       | (r1, r2, r3, r4, r5, r6, r7) \<Rightarrow>
           Inl (issues_of r1 @ issues_of r2 @ issues_of r3 @ issues_of r4 @ issues_of r5
                @ issues_of r6 @ issues_of r7)),
     ForkRepositorySchema = (\<lambda>a.
       case (field z_string ''project_id'' [] a,
             field (z_optional z_string) ''namespace'' [] a) of
         (Inr p, Inr n) \<Rightarrow> Inr \<lparr>fork_repository_args.project_id = p, namespace = n\<rparr>
       | (r1, r2) \<Rightarrow> Inl (issues_of r1 @ issues_of r2)),
     CreateBranchSchema = (\<lambda>a.
       case (field z_string ''project_id'' [] a, field z_string ''branch'' [] a,
             field (z_optional z_string) ''ref'' [] a) of
         (Inr p, Inr b, Inr r) \<Rightarrow>
           Inr \<lparr>create_branch_args.project_id = p, create_branch_args.branch = b,
                create_branch_args.ref = r\<rparr>
       | (r1, r2, r3) \<Rightarrow> Inl (issues_of r1 @ issues_of r2 @ issues_of r3))\<rparr>"

text \<open>
  A mocked GitLab for evaluating the handler on concrete requests. Its state is the
  number of requests it has served; every function answers with a fixed body that
  echoes its arguments. \<open>unavailable_api\<close> rejects every call instead.
\<close>

definition mock_tree :: "tree_item list" where
  "mock_tree =
    [\<lparr>id' = ''a1'', tree_item.name = ''README.md'', tree_item.type = ''blob'',
      tree_item.path = ''README.md'', mode = ''100644''\<rparr>,
     \<lparr>id' = ''b2'', tree_item.name = ''src'', tree_item.type = ''tree'',
      tree_item.path = ''src'', mode = ''040000''\<rparr>,
     \<lparr>id' = ''c3'', tree_item.name = ''vendor'', tree_item.type = ''commit'',
      tree_item.path = ''vendor'', mode = ''160000''\<rparr>,
     \<lparr>id' = ''d4'', tree_item.name = ''docs'', tree_item.type = ''tree'',
      tree_item.path = ''docs'', mode = ''040000''\<rparr>]"

definition served :: "json \<Rightarrow> (nat, json) eff" where
  "served body w = (Inr body, Suc w)"

definition mock_api :: "nat gitlab_api" where
  "mock_api =
    \<lparr>forkProject = (\<lambda>p n. served (JObj [(''forked_from'', JStr p)])),
     getDefaultBranchRef = (\<lambda>p w. (Inr ''main'', Suc w)),
     createBranch = (\<lambda>p opts. served
       (JObj [(''name'', JStr (branch_options.name opts)),
              (''ref'', JStr (branch_options.ref opts))])),
     searchProjects = (\<lambda>q pg pp. served (JArr [JObj [(''id'', JNum 7), (''name'', JStr q)]])),
     createRepository = (\<lambda>args. served
       (JObj [(''id'', JNum 8), (''name'', JStr (create_repository_args.name args))])),
     getFileContents = (\<lambda>p f r. served
       (JObj [(''file_path'', JStr f), (''content'', JStr ''aGVsbG8='')])),
     getRepositoryTree = (\<lambda>p d r rc pp w. (Inr mock_tree, Suc w)),
     createOrUpdateFile = (\<lambda>p f c m b pv. served
       (JObj [(''file_path'', JStr f), (''branch'', JStr b)])),
     createCommit = (\<lambda>p m b fs. served
       (JObj [(''message'', JStr m), (''files'', JNum (int (length fs)))])),
     createIssue = (\<lambda>p opts. served
       (JObj [(''iid'', JNum 1), (''title'', JStr (issue_options.title opts))])),
     createMergeRequest = (\<lambda>p opts. served
       (JObj [(''iid'', JNum 2), (''title'', JStr (merge_request_options.title opts))]))\<rparr>"





text \<open>The whole tree as the JSON value GitLab sent it.\<close>

definition tree_json :: "tree_item list \<Rightarrow> json" where
  "tree_json tree =
     JArr (map (\<lambda>item. JObj [(''id'', JStr (id' item)), (''name'', JStr (tree_item.name item)),
                               (''type'', JStr (tree_item.type item)),
                               (''path'', JStr (tree_item.path item)),
                               (''mode'', JStr (mode item))]) tree)"

section \<open>Properties of the dispatch\<close>

subsection \<open>The switch and the catalog\<close>

lemma advertised_schema_cases:
  "advertised_schema n = Some S \<Longrightarrow>
     (n = ''create_or_update_file'' \<and> S = OfCreateOrUpdateFileSchema) \<or>
     (n = ''search_repositories'' \<and> S = OfSearchRepositoriesSchema) \<or>
     (n = ''create_repository'' \<and> S = OfCreateRepositorySchema) \<or>
     (n = ''get_file_contents'' \<and> S = OfGetFileContentsSchema) \<or>
     (n = ''get_repository_tree'' \<and> S = OfGetRepositoryTreeSchema) \<or>
     (n = ''push_files'' \<and> S = OfPushFilesSchema) \<or>
     (n = ''create_issue'' \<and> S = OfCreateIssueSchema) \<or>
     (n = ''create_merge_request'' \<and> S = OfCreateMergeRequestSchema) \<or>
     (n = ''fork_repository'' \<and> S = OfForkRepositorySchema) \<or>
     (n = ''create_branch'' \<and> S = OfCreateBranchSchema)"
  unfolding advertised_schema_def tools_def
  by (simp split: if_splits)

lemma tool_names: "map tool.name tools = [''create_or_update_file'', ''search_repositories'', ''create_repository'',
  ''get_file_contents'', ''get_repository_tree'', ''push_files'', ''create_issue'', ''create_merge_request'',
  ''fork_repository'', ''create_branch'']"
  by (simp add: tools_def)

lemma try_block_dispatch:
  "try_block cfg sch api (request_for ''fork_repository'' (Some a)) = case_fork_repository sch api a"
  "try_block cfg sch api (request_for ''create_branch'' (Some a)) = case_create_branch sch api a"
  "try_block cfg sch api (request_for ''search_repositories'' (Some a)) = case_search_repositories sch api a"
  "try_block cfg sch api (request_for ''create_repository'' (Some a)) = case_create_repository sch api a"
  "try_block cfg sch api (request_for ''get_file_contents'' (Some a)) = case_get_file_contents sch api a"
  "try_block cfg sch api (request_for ''get_repository_tree'' (Some a)) = case_get_repository_tree sch api a"
  "try_block cfg sch api (request_for ''create_or_update_file'' (Some a)) = case_create_or_update_file sch api a"
  "try_block cfg sch api (request_for ''push_files'' (Some a)) = case_push_files sch api a"
  "try_block cfg sch api (request_for ''create_issue'' (Some a)) = case_create_issue sch api a"
  "try_block cfg sch api (request_for ''create_merge_request'' (Some a)) = case_create_merge_request sch api a"
  by (simp_all add: try_block_def request_for_def)

lemma try_block_unknown:
  "n \<notin> set (map tool.name tools) \<Longrightarrow>
     try_block cfg sch api (request_for n (Some a)) = throw (Error (''Unknown tool: '' @ n))"
  unfolding tool_names by (simp add: try_block_def request_for_def)

lemma try_block_no_arguments:
  "try_block cfg sch api (request_for n None) = throw (Error ''Arguments are required'')"
  by (simp add: try_block_def request_for_def)

lemma await_parse_rejected:
  "schema a = Inl issues \<Longrightarrow> await (parse schema a) k w = (Inl (ZodError issues), w)"
  by (simp add: await_def parse_def throw_def)

lemma await_parse_accepted:
  "schema a = Inr args \<Longrightarrow> await (parse schema a) k w = k args w"
  by (simp add: await_def parse_def return_value_def)

lemma await_logged:
  "await (logged c tag f) (\<lambda>x. return_value (g x)) (log, w) =
     (case f w of
        (Inl e, w') \<Rightarrow> (Inl e, (log @ [(c, Inl e)], w'))
      | (Inr x, w') \<Rightarrow> (Inr (g x), (log @ [(c, Inr (tag x))], w')))"
  by (simp add: await_def logged_def return_value_def split: prod.splits sum.splits)

lemmas case_defs = case_fork_repository_def case_create_branch_def case_search_repositories_def
        case_create_repository_def case_get_file_contents_def case_get_repository_tree_def
        case_create_or_update_file_def case_push_files_def case_create_issue_def
        case_create_merge_request_def

lemma rejects_Some: "rejects schema a = Some issues \<longleftrightarrow> schema a = Inl issues"
  by (simp add: rejects_def split: sum.splits)

lemma rejects_None: "rejects schema a = None \<longleftrightarrow> (\<exists>args. schema a = Inr args)"
  by (simp add: rejects_def split: sum.splits)

lemma rejected_case:
  assumes "advertised_schema n = Some S" "schema_check sch S a = Some issues"
  shows "try_block cfg sch api (request_for n (Some a)) w = (Inl (ZodError issues), w)"
  using advertised_schema_cases [OF assms(1)] assms(2)
  by (elim disjE conjE; simp add: try_block_dispatch rejects_Some case_defs await_parse_rejected)


subsection \<open>What each case does with the recorded API\<close>

lemma await_logged_then:
  "await (logged c tag f) k (log, w) =
     (case f w of
        (Inl e, w') \<Rightarrow> (Inl e, (log @ [(c, Inl e)], w'))
      | (Inr x, w') \<Rightarrow> k x (log @ [(c, Inr (tag x))], w'))"
  by (simp add: await_def logged_def split: prod.splits sum.splits)

lemma await_return_value: "await (return_value x) k s = k x s"
  by (simp add: await_def return_value_def)

lemma recording_sel:
  "forkProject (recording api) = (\<lambda>p n. logged (ForkProject p n) Body (forkProject api p n))"
  "getDefaultBranchRef (recording api) =
     (\<lambda>p. logged (GetDefaultBranchRef p) BranchRef (getDefaultBranchRef api p))"
  "createBranch (recording api) =
     (\<lambda>p opts. logged (CreateBranch p opts) Body (createBranch api p opts))"
  "searchProjects (recording api) =
     (\<lambda>q pg pp. logged (SearchProjects q pg pp) Body (searchProjects api q pg pp))"
  "createRepository (recording api) =
     (\<lambda>args. logged (CreateRepository args) Body (createRepository api args))"
  "getFileContents (recording api) =
     (\<lambda>p f r. logged (GetFileContents p f r) Body (getFileContents api p f r))"
  "getRepositoryTree (recording api) =
     (\<lambda>p d r rc pp. logged (GetRepositoryTree p d r rc pp) Tree
                      (getRepositoryTree api p d r rc pp))"
  "createOrUpdateFile (recording api) =
     (\<lambda>p f c m b pv. logged (CreateOrUpdateFile p f c m b pv) Body
                       (createOrUpdateFile api p f c m b pv))"
  "createCommit (recording api) =
     (\<lambda>p m b fs. logged (CreateCommit p m b fs) Body (createCommit api p m b fs))"
  "createIssue (recording api) =
     (\<lambda>p opts. logged (CreateIssue p opts) Body (createIssue api p opts))"
  "createMergeRequest (recording api) =
     (\<lambda>p opts. logged (CreateMergeRequest p opts) Body (createMergeRequest api p opts))"
  by (simp_all add: recording_def)

lemma fork_repository_run:
  "ForkRepositorySchema sch a = Inr args \<Longrightarrow>
   case_fork_repository sch (recording api) a (log, w) =
     (case forkProject api
          (fork_repository_args.project_id args)
          (namespace args) w of
        (Inl e, w') \<Rightarrow>
          (Inl e,
           (log @ [(ForkProject
          (fork_repository_args.project_id args)
          (namespace args), Inl e)], w'))
      | (Inr b, w') \<Rightarrow>
          (Inr (text_response (stringify b)),
           (log @ [(ForkProject
          (fork_repository_args.project_id args)
          (namespace args), Inr (Body b))], w')))"
  by (simp add: case_fork_repository_def await_parse_accepted recording_sel await_logged)

lemma search_repositories_run:
  "SearchRepositoriesSchema sch a = Inr args \<Longrightarrow>
   case_search_repositories sch (recording api) a (log, w) =
     (case searchProjects api
          (search args)
          (page args)
          (search_repositories_args.per_page args) w of
        (Inl e, w') \<Rightarrow>
          (Inl e,
           (log @ [(SearchProjects
          (search args)
          (page args)
          (search_repositories_args.per_page args), Inl e)], w'))
      | (Inr b, w') \<Rightarrow>
          (Inr (text_response (stringify b)),
           (log @ [(SearchProjects
          (search args)
          (page args)
          (search_repositories_args.per_page args), Inr (Body b))], w')))"
  by (simp add: case_search_repositories_def await_parse_accepted recording_sel await_logged)

lemma create_repository_run:
  "CreateRepositorySchema sch a = Inr args \<Longrightarrow>
   case_create_repository sch (recording api) a (log, w) =
     (case createRepository api
          args w of
        (Inl e, w') \<Rightarrow>
          (Inl e,
           (log @ [(CreateRepository
          args, Inl e)], w'))
      | (Inr b, w') \<Rightarrow>
          (Inr (text_response (stringify b)),
           (log @ [(CreateRepository
          args, Inr (Body b))], w')))"
  by (simp add: case_create_repository_def await_parse_accepted recording_sel await_logged)

lemma get_file_contents_run:
  "GetFileContentsSchema sch a = Inr args \<Longrightarrow>
   case_get_file_contents sch (recording api) a (log, w) =
     (case getFileContents api
          (get_file_contents_args.project_id args)
          (get_file_contents_args.file_path args)
          (get_file_contents_args.ref args) w of
        (Inl e, w') \<Rightarrow>
          (Inl e,
           (log @ [(GetFileContents
          (get_file_contents_args.project_id args)
          (get_file_contents_args.file_path args)
          (get_file_contents_args.ref args), Inl e)], w'))
      | (Inr b, w') \<Rightarrow>
          (Inr (text_response (stringify b)),
           (log @ [(GetFileContents
          (get_file_contents_args.project_id args)
          (get_file_contents_args.file_path args)
          (get_file_contents_args.ref args), Inr (Body b))], w')))"
  by (simp add: case_get_file_contents_def await_parse_accepted recording_sel await_logged)

lemma get_repository_tree_run:
  "GetRepositoryTreeSchema sch a = Inr args \<Longrightarrow>
   case_get_repository_tree sch (recording api) a (log, w) =
     (case getRepositoryTree api
          (get_repository_tree_args.project_id args)
          (get_repository_tree_args.path args)
          (get_repository_tree_args.ref args)
          (recursive args)
          (get_repository_tree_args.per_page args) w of
        (Inl e, w') \<Rightarrow>
          (Inl e,
           (log @ [(GetRepositoryTree
          (get_repository_tree_args.project_id args)
          (get_repository_tree_args.path args)
          (get_repository_tree_args.ref args)
          (recursive args)
          (get_repository_tree_args.per_page args), Inl e)], w'))
      | (Inr b, w') \<Rightarrow>
          (Inr (text_response (format_tree b)),
           (log @ [(GetRepositoryTree
          (get_repository_tree_args.project_id args)
          (get_repository_tree_args.path args)
          (get_repository_tree_args.ref args)
          (recursive args)
          (get_repository_tree_args.per_page args), Inr (Tree b))], w')))"
  by (simp add: case_get_repository_tree_def await_parse_accepted recording_sel await_logged)

lemma create_or_update_file_run:
  "CreateOrUpdateFileSchema sch a = Inr args \<Longrightarrow>
   case_create_or_update_file sch (recording api) a (log, w) =
     (case createOrUpdateFile api
          (create_or_update_file_args.project_id args)
          (create_or_update_file_args.file_path args)
          (create_or_update_file_args.content args)
          (create_or_update_file_args.commit_message args)
          (create_or_update_file_args.branch args)
          (previous_path args) w of
        (Inl e, w') \<Rightarrow>
          (Inl e,
           (log @ [(CreateOrUpdateFile
          (create_or_update_file_args.project_id args)
          (create_or_update_file_args.file_path args)
          (create_or_update_file_args.content args)
          (create_or_update_file_args.commit_message args)
          (create_or_update_file_args.branch args)
          (previous_path args), Inl e)], w'))
      | (Inr b, w') \<Rightarrow>
          (Inr (text_response (stringify b)),
           (log @ [(CreateOrUpdateFile
          (create_or_update_file_args.project_id args)
          (create_or_update_file_args.file_path args)
          (create_or_update_file_args.content args)
          (create_or_update_file_args.commit_message args)
          (create_or_update_file_args.branch args)
          (previous_path args), Inr (Body b))], w')))"
  by (simp add: case_create_or_update_file_def await_parse_accepted recording_sel await_logged)

lemma push_files_run:
  "PushFilesSchema sch a = Inr args \<Longrightarrow>
   case_push_files sch (recording api) a (log, w) =
     (case createCommit api
          (push_files_args.project_id args)
          (push_files_args.commit_message args)
          (push_files_args.branch args)
          (map (\<lambda>f. \<lparr>file_action.path = file_entry.file_path f,
                   file_action.content = file_entry.content f\<rparr>) (files args)) w of
        (Inl e, w') \<Rightarrow>
          (Inl e,
           (log @ [(CreateCommit
          (push_files_args.project_id args)
          (push_files_args.commit_message args)
          (push_files_args.branch args)
          (map (\<lambda>f. \<lparr>file_action.path = file_entry.file_path f,
                   file_action.content = file_entry.content f\<rparr>) (files args)), Inl e)], w'))
      | (Inr b, w') \<Rightarrow>
          (Inr (text_response (stringify b)),
           (log @ [(CreateCommit
          (push_files_args.project_id args)
          (push_files_args.commit_message args)
          (push_files_args.branch args)
          (map (\<lambda>f. \<lparr>file_action.path = file_entry.file_path f,
                   file_action.content = file_entry.content f\<rparr>) (files args)), Inr (Body b))], w')))"
  by (simp add: case_push_files_def await_parse_accepted recording_sel await_logged)

lemma create_issue_run:
  "CreateIssueSchema sch a = Inr args \<Longrightarrow>
   case_create_issue sch (recording api) a (log, w) =
     (case createIssue api
          (create_issue_args.project_id args)
          \<lparr>issue_options.title = create_issue_args.title args,
           issue_options.description = create_issue_args.description args,
           issue_options.assignee_ids = create_issue_args.assignee_ids args,
           issue_options.labels = create_issue_args.labels args,
           issue_options.milestone_id = create_issue_args.milestone_id args\<rparr> w of
        (Inl e, w') \<Rightarrow>
          (Inl e,
           (log @ [(CreateIssue
          (create_issue_args.project_id args)
          \<lparr>issue_options.title = create_issue_args.title args,
           issue_options.description = create_issue_args.description args,
           issue_options.assignee_ids = create_issue_args.assignee_ids args,
           issue_options.labels = create_issue_args.labels args,
           issue_options.milestone_id = create_issue_args.milestone_id args\<rparr>, Inl e)], w'))
      | (Inr b, w') \<Rightarrow>
          (Inr (text_response (stringify b)),
           (log @ [(CreateIssue
          (create_issue_args.project_id args)
          \<lparr>issue_options.title = create_issue_args.title args,
           issue_options.description = create_issue_args.description args,
           issue_options.assignee_ids = create_issue_args.assignee_ids args,
           issue_options.labels = create_issue_args.labels args,
           issue_options.milestone_id = create_issue_args.milestone_id args\<rparr>, Inr (Body b))], w')))"
  by (simp add: case_create_issue_def await_parse_accepted recording_sel await_logged)

lemma create_merge_request_run:
  "CreateMergeRequestSchema sch a = Inr args \<Longrightarrow>
   case_create_merge_request sch (recording api) a (log, w) =
     (case createMergeRequest api
          (create_merge_request_args.project_id args)
          \<lparr>merge_request_options.title = create_merge_request_args.title args,
           merge_request_options.description = create_merge_request_args.description args,
           merge_request_options.source_branch = create_merge_request_args.source_branch args,
           merge_request_options.target_branch = create_merge_request_args.target_branch args,
           merge_request_options.draft = create_merge_request_args.draft args,
           merge_request_options.allow_collaboration =
             create_merge_request_args.allow_collaboration args\<rparr> w of
        (Inl e, w') \<Rightarrow>
          (Inl e,
           (log @ [(CreateMergeRequest
          (create_merge_request_args.project_id args)
          \<lparr>merge_request_options.title = create_merge_request_args.title args,
           merge_request_options.description = create_merge_request_args.description args,
           merge_request_options.source_branch = create_merge_request_args.source_branch args,
           merge_request_options.target_branch = create_merge_request_args.target_branch args,
           merge_request_options.draft = create_merge_request_args.draft args,
           merge_request_options.allow_collaboration =
             create_merge_request_args.allow_collaboration args\<rparr>, Inl e)], w'))
      | (Inr b, w') \<Rightarrow>
          (Inr (text_response (stringify b)),
           (log @ [(CreateMergeRequest
          (create_merge_request_args.project_id args)
          \<lparr>merge_request_options.title = create_merge_request_args.title args,
           merge_request_options.description = create_merge_request_args.description args,
           merge_request_options.source_branch = create_merge_request_args.source_branch args,
           merge_request_options.target_branch = create_merge_request_args.target_branch args,
           merge_request_options.draft = create_merge_request_args.draft args,
           merge_request_options.allow_collaboration =
             create_merge_request_args.allow_collaboration args\<rparr>, Inr (Body b))], w')))"
  by (simp add: case_create_merge_request_def await_parse_accepted recording_sel await_logged)

lemma create_branch_default_run:
  assumes "CreateBranchSchema sch a = Inr args"
    and "create_branch_args.ref args = None \<or> create_branch_args.ref args = Some []"
  shows "case_create_branch sch (recording api) a (log, w) =
        (case getDefaultBranchRef api (create_branch_args.project_id args) w of
           (Inl e, w1) \<Rightarrow>
             (Inl e, (log @ [(GetDefaultBranchRef (create_branch_args.project_id args), Inl e)], w1))
         | (Inr d, w1) \<Rightarrow>
             (case createBranch api (create_branch_args.project_id args)
                     \<lparr>branch_options.name = create_branch_args.branch args,
                      branch_options.ref = d\<rparr> w1 of
                (Inl e, w2) \<Rightarrow>
                  (Inl e,
                   (log @ [(GetDefaultBranchRef (create_branch_args.project_id args),
                            Inr (BranchRef d)),
                           (CreateBranch (create_branch_args.project_id args)
                              \<lparr>branch_options.name = create_branch_args.branch args,
                               branch_options.ref = d\<rparr>, Inl e)], w2))
              | (Inr b, w2) \<Rightarrow>
                  (Inr (text_response (stringify b)),
                   (log @ [(GetDefaultBranchRef (create_branch_args.project_id args),
                            Inr (BranchRef d)),
                           (CreateBranch (create_branch_args.project_id args)
                              \<lparr>branch_options.name = create_branch_args.branch args,
                               branch_options.ref = d\<rparr>, Inr (Body b))], w2))))"
proof -
  have eq: "case_create_branch sch (recording api) a (log, w) =
      await (getDefaultBranchRef (recording api) (create_branch_args.project_id args)) (\<lambda>ref.
        await (createBranch (recording api) (create_branch_args.project_id args)
              \<lparr>branch_options.name = create_branch_args.branch args,
               branch_options.ref = ref\<rparr>) (\<lambda>branch.
        return_value (text_response (stringify branch)))) (log, w)"
    using assms by (auto simp: case_create_branch_def await_parse_accepted)
  show ?thesis
    unfolding eq
    by (simp add: recording_sel await_logged_then await_logged return_value_def
        split: prod.splits sum.splits)
qed

lemma create_branch_given_run:
  assumes "CreateBranchSchema sch a = Inr args"
    and "create_branch_args.ref args = Some r" and "r \<noteq> []"
  shows "case_create_branch sch (recording api) a (log, w) =
        (case createBranch api (create_branch_args.project_id args)
                \<lparr>branch_options.name = create_branch_args.branch args,
                 branch_options.ref = r\<rparr> w of
           (Inl e, w') \<Rightarrow>
             (Inl e,
              (log @ [(CreateBranch (create_branch_args.project_id args)
                         \<lparr>branch_options.name = create_branch_args.branch args,
                          branch_options.ref = r\<rparr>, Inl e)], w'))
         | (Inr b, w') \<Rightarrow>
             (Inr (text_response (stringify b)),
              (log @ [(CreateBranch (create_branch_args.project_id args)
                         \<lparr>branch_options.name = create_branch_args.branch args,
                          branch_options.ref = r\<rparr>, Inr (Body b))], w')))"
  using assms
  by (simp add: case_create_branch_def await_parse_accepted await_return_value recording_sel
      await_logged)

lemmas run_lemmas = fork_repository_run search_repositories_run create_repository_run
  get_file_contents_run get_repository_tree_run create_or_update_file_run push_files_run
  create_issue_run create_merge_request_run

lemma catch_block_Error: "catch_block (Error m) = Error m"
  by (simp add: catch_block_def)

subsection \<open>Exchanges of a whole request, the listing, and the server loop\<close>



lemma await_resolved: "m w = (Inr x, w') \<Longrightarrow> await m k w = k x w'"
  by (simp add: await_def)

lemma await_rejected: "m w = (Inl e, w') \<Longrightarrow> await m k w = (Inl e, w')"
  by (simp add: await_def)



lemma join_contains:
  "x \<in> set xs \<Longrightarrow> \<exists>pre post. join sep xs = pre @ x @ post"
proof (induction sep xs rule: join.induct)
  case (1 sep)
  then show ?case by simp
next
  case (2 sep y)
  then have "join sep [y] = [] @ x @ []" by simp
  then show ?case by blast
next
  case (3 sep y z zs)
  show ?case
  proof (cases "x = y")
    case True
    then have "join sep (y # z # zs) = [] @ x @ (sep @ join sep (z # zs))" by simp
    then show ?thesis by blast
  next
    case False
    with 3 obtain pre post where "join sep (z # zs) = pre @ x @ post" by auto
    then have "join sep (y # z # zs) = (y @ sep @ pre) @ x @ post" by simp
    then show ?thesis by blast
  qed
qed

lemma foldl_append_lines:
  "foldl (\<lambda>acc x. acc @ f x) init xs = init @ concat (map f xs)"
  by (induction xs arbitrary: init) simp_all

lemma format_tree_eq:
  "format_tree tree =
     ''Repository directory structure:'' @ nl @ nl
     @ concat (map (\<lambda>dir. ''Folder: '' @ tree_item.path dir @ ''/'' @ nl)
         (filter (\<lambda>item. tree_item.type item = ''tree'') tree))
     @ concat (map (\<lambda>file. ''File: '' @ tree_item.path file @ nl)
         (filter (\<lambda>item. tree_item.type item = ''blob'') tree))"
  unfolding format_tree_def Let_def
  by (simp only: foldl_append_lines [where f = "\<lambda>dir. ''Folder: '' @ tree_item.path dir @ ''/'' @ nl"]
         foldl_append_lines [where f = "\<lambda>file. ''File: '' @ tree_item.path file @ nl"] append_assoc)







section \<open>The claims\<close>

subsection \<open>Validation comes first\<close>

text \<open>
  Claim C7. For every tool operation, argument validation happens before any GitLab API
  call: when the arguments object does not satisfy the schema of the operation, the
  request fails, the transcript of API calls is what it was, and the remote state is
  untouched. The schema of an operation is the one advertised for it in the catalog.
\<close>

theorem validation_before_api:
  assumes "advertised_schema n = Some S" and "schema_check sch S a = Some issues"
  shows "\<exists>e. call_tool cfg sch (recording api) (request_for n (Some a)) (log, w)
              = (Inl e, (log, w))"
  by (simp add: call_tool_def rejected_case [OF assms])

theorem validation_before_api_witness:
  "advertised_schema ''push_files'' = Some OfPushFilesSchema
   \<and> schema_check documented_schemas OfPushFilesSchema [(''project_id'', JNum 42)] =
       Some [\<lparr>zod_issue.path = [Key ''project_id''],
              message = ''Expected string, received number''\<rparr>,
             \<lparr>zod_issue.path = [Key ''branch''], message = ''Required''\<rparr>,
             \<lparr>zod_issue.path = [Key ''files''], message = ''Required''\<rparr>,
             \<lparr>zod_issue.path = [Key ''commit_message''], message = ''Required''\<rparr>]
   \<and> (\<exists>e. call_tool \<lparr>isReadOnly = False\<rparr> documented_schemas (recording mock_api)
              (request_for ''push_files'' (Some [(''project_id'', JNum 42)])) ([], 0)
            = (Inl e, ([], 0)))"
proof -
  have h1: "advertised_schema ''push_files'' = Some OfPushFilesSchema"
    by code_simp
  have h2: "schema_check documented_schemas OfPushFilesSchema [(''project_id'', JNum 42)] =
       Some [\<lparr>zod_issue.path = [Key ''project_id''],
              message = ''Expected string, received number''\<rparr>,
             \<lparr>zod_issue.path = [Key ''branch''], message = ''Required''\<rparr>,
             \<lparr>zod_issue.path = [Key ''files''], message = ''Required''\<rparr>,
             \<lparr>zod_issue.path = [Key ''commit_message''], message = ''Required''\<rparr>]"
    by code_simp
  from validation_before_api [OF h1 h2, where cfg = "\<lparr>isReadOnly = False\<rparr>"
      and api = mock_api and log = "[]" and w = "0::nat"] h1 h2
  show ?thesis by simp
qed

subsection \<open>Requests without arguments and unknown tools\<close>

text \<open>
  Claim C9. A request whose arguments field is absent fails with
  \<^verbatim>\<open>Arguments are required\<close>, whatever its tool name, and no API function is
  invoked. The check comes before the dispatch on the name, so a request that has
  arguments and names a tool outside the ten of the catalog fails with
  \<^verbatim>\<open>Unknown tool: \<close> followed by the name, again without any API call.
\<close>

theorem missing_arguments_and_unknown_tools:
  "call_tool cfg sch (recording api) (request_for n None) (log, w)
     = (Inl (Error ''Arguments are required''), (log, w))
   \<and> (n \<notin> set (map tool.name tools) \<longrightarrow>
        call_tool cfg sch (recording api) (request_for n (Some a)) (log, w)
          = (Inl (Error (''Unknown tool: '' @ n)), (log, w)))"
  by (simp add: call_tool_def try_block_no_arguments try_block_unknown throw_def
      catch_block_Error)

theorem missing_arguments_and_unknown_tools_witness:
  "call_tool \<lparr>isReadOnly = False\<rparr> documented_schemas (recording mock_api)
      (request_for ''delete_repository'' None) ([], 0)
     = (Inl (Error ''Arguments are required''), ([], 0))
   \<and> ''delete_repository'' \<notin> set (map tool.name tools)
   \<and> call_tool \<lparr>isReadOnly = False\<rparr> documented_schemas (recording mock_api)
        (request_for ''delete_repository'' (Some [(''project_id'', JStr ''42'')])) ([], 0)
       = (Inl (Error ''Unknown tool: delete_repository''), ([], 0))"
proof -
  have h: "''delete_repository'' \<notin> set (map tool.name tools)"
    by (simp add: tool_names)
  from missing_arguments_and_unknown_tools [where cfg = "\<lparr>isReadOnly = False\<rparr>"
      and sch = documented_schemas and api = mock_api and n = "''delete_repository''"
      and log = "[]" and w = "0::nat" and a = "[(''project_id'', JStr ''42'')]"] h
  show ?thesis by simp
qed

subsection \<open>The message of a validation failure\<close>

text \<open>
  Claim C5. When the arguments of a tool call fail schema validation, the call fails
  with an \<^verbatim>\<open>Error\<close> whose message is \<^verbatim>\<open>Invalid arguments: \<close> followed by one
  entry per validation issue, separated by a comma and a space; an entry is the path of
  the issue joined with dots, a colon, a space and the issue's message. So every
  offending field is named in the message.
\<close>

theorem invalid_arguments_message:
  assumes "advertised_schema n = Some S" and "schema_check sch S a = Some issues"
  shows "call_tool cfg sch api (request_for n (Some a)) w =
           (Inl (Error (''Invalid arguments: '' @
                   join '', '' (map (\<lambda>e. join ''.'' (map path_elem_string (zod_issue.path e))
                                          @ '': '' @ message e) issues))), w)
       \<and> (\<forall>e\<in>set issues. \<exists>pre post.
             join '', '' (map (\<lambda>e. join ''.'' (map path_elem_string (zod_issue.path e))
                                    @ '': '' @ message e) issues) =
             pre @ (join ''.'' (map path_elem_string (zod_issue.path e)) @ '': '' @ message e)
               @ post)"
proof
  show "call_tool cfg sch api (request_for n (Some a)) w =
           (Inl (Error (''Invalid arguments: '' @
                   join '', '' (map (\<lambda>e. join ''.'' (map path_elem_string (zod_issue.path e))
                                          @ '': '' @ message e) issues))), w)"
    by (simp add: call_tool_def rejected_case [OF assms] catch_block_def issue_text_def [abs_def])
next
  show "\<forall>e\<in>set issues. \<exists>pre post.
             join '', '' (map (\<lambda>e. join ''.'' (map path_elem_string (zod_issue.path e))
                                    @ '': '' @ message e) issues) =
             pre @ (join ''.'' (map path_elem_string (zod_issue.path e)) @ '': '' @ message e)
               @ post"
    by (intro ballI join_contains) simp
qed

theorem invalid_arguments_message_witness:
  "advertised_schema ''push_files'' = Some OfPushFilesSchema
   \<and> schema_check documented_schemas OfPushFilesSchema
        [(''project_id'', JNum 42), (''files'', JArr [JObj [(''file_path'', JStr ''a'')]])] =
       Some [\<lparr>zod_issue.path = [Key ''project_id''],
              message = ''Expected string, received number''\<rparr>,
             \<lparr>zod_issue.path = [Key ''branch''], message = ''Required''\<rparr>,
             \<lparr>zod_issue.path = [Key ''files'', Index 0, Key ''content''],
              message = ''Required''\<rparr>,
             \<lparr>zod_issue.path = [Key ''commit_message''], message = ''Required''\<rparr>]
   \<and> call_tool \<lparr>isReadOnly = False\<rparr> documented_schemas mock_api
        (request_for ''push_files''
           (Some [(''project_id'', JNum 42),
                  (''files'', JArr [JObj [(''file_path'', JStr ''a'')]])])) 0
       = (Inl (Error ''Invalid arguments: project_id: Expected string, received number, branch: Required, files.0.content: Required, commit_message: Required''), 0)"
proof -
  have h1: "advertised_schema ''push_files'' = Some OfPushFilesSchema"
    by code_simp
  have h2: "schema_check documented_schemas OfPushFilesSchema
        [(''project_id'', JNum 42), (''files'', JArr [JObj [(''file_path'', JStr ''a'')]])] =
       Some [\<lparr>zod_issue.path = [Key ''project_id''],
              message = ''Expected string, received number''\<rparr>,
             \<lparr>zod_issue.path = [Key ''branch''], message = ''Required''\<rparr>,
             \<lparr>zod_issue.path = [Key ''files'', Index 0, Key ''content''],
              message = ''Required''\<rparr>,
             \<lparr>zod_issue.path = [Key ''commit_message''], message = ''Required''\<rparr>]"
    by code_simp
  have h3: "show_nat 0 = ''0''"
    by code_simp
  from invalid_arguments_message [OF h1 h2, where cfg = "\<lparr>isReadOnly = False\<rparr>"
      and api = mock_api and w = "0::nat"] h1 h2 h3
  show ?thesis by (simp add: path_elem_string_def)
qed

subsection \<open>The listing of a repository tree\<close>

text \<open>
  Claim C8. For every \<^verbatim>\<open>get_repository_tree\<close> call whose arguments are accepted and
  whose API call resolves, the returned text is the heading, then one line
  \<^verbatim>\<open>Folder: <path>/\<close> for every entry of type \<^verbatim>\<open>tree\<close>, then one line
  \<^verbatim>\<open>File: <path>\<close> for every entry of type \<^verbatim>\<open>blob\<close>, each group in the order of the
  API's answer. Entries of any other type do not appear: the listing of a tree is the
  listing of its \<^verbatim>\<open>tree\<close> and \<^verbatim>\<open>blob\<close> entries alone.
\<close>

theorem tree_listing:
  assumes "GetRepositoryTreeSchema sch a = Inr args"
    and "getRepositoryTree api (get_repository_tree_args.project_id args)
           (get_repository_tree_args.path args) (get_repository_tree_args.ref args)
           (recursive args) (get_repository_tree_args.per_page args) w = (Inr tree, w')"
  shows "call_tool cfg sch api (request_for ''get_repository_tree'' (Some a)) w =
           (Inr (text_response
              (''Repository directory structure:'' @ nl @ nl
               @ concat (map (\<lambda>dir. ''Folder: '' @ tree_item.path dir @ ''/'' @ nl)
                   (filter (\<lambda>item. tree_item.type item = ''tree'') tree))
               @ concat (map (\<lambda>file. ''File: '' @ tree_item.path file @ nl)
                   (filter (\<lambda>item. tree_item.type item = ''blob'') tree)))), w')
       \<and> format_tree tree =
           format_tree (filter (\<lambda>item. tree_item.type item = ''tree''
                                      \<or> tree_item.type item = ''blob'') tree)"
proof
  have "call_tool cfg sch api (request_for ''get_repository_tree'' (Some a)) w =
          (Inr (text_response (format_tree tree)), w')"
    using assms
    by (simp add: call_tool_def try_block_dispatch case_get_repository_tree_def
        await_parse_accepted await_resolved return_value_def)
  then show "call_tool cfg sch api (request_for ''get_repository_tree'' (Some a)) w =
           (Inr (text_response
              (''Repository directory structure:'' @ nl @ nl
               @ concat (map (\<lambda>dir. ''Folder: '' @ tree_item.path dir @ ''/'' @ nl)
                   (filter (\<lambda>item. tree_item.type item = ''tree'') tree))
               @ concat (map (\<lambda>file. ''File: '' @ tree_item.path file @ nl)
                   (filter (\<lambda>item. tree_item.type item = ''blob'') tree)))), w')"
    by (simp only: format_tree_eq)
next
  have "filter (\<lambda>item. tree_item.type item = ''tree'')
          (filter (\<lambda>item. tree_item.type item = ''tree'' \<or> tree_item.type item = ''blob'') tree)
        = filter (\<lambda>item. tree_item.type item = ''tree'') tree"
    and "filter (\<lambda>item. tree_item.type item = ''blob'')
          (filter (\<lambda>item. tree_item.type item = ''tree'' \<or> tree_item.type item = ''blob'') tree)
        = filter (\<lambda>item. tree_item.type item = ''blob'') tree"
    by (induction tree) auto
  then show "format_tree tree =
           format_tree (filter (\<lambda>item. tree_item.type item = ''tree''
                                      \<or> tree_item.type item = ''blob'') tree)"
    by (simp only: format_tree_eq)
qed

theorem tree_listing_witness:
  "GetRepositoryTreeSchema documented_schemas [(''project_id'', JStr ''42'')] =
     Inr \<lparr>get_repository_tree_args.project_id = ''42'', get_repository_tree_args.path = None,
          get_repository_tree_args.ref = None, recursive = None,
          get_repository_tree_args.per_page = None\<rparr>
   \<and> getRepositoryTree mock_api ''42'' None None None None 0 = (Inr mock_tree, 1)
   \<and> call_tool \<lparr>isReadOnly = False\<rparr> documented_schemas mock_api
        (request_for ''get_repository_tree'' (Some [(''project_id'', JStr ''42'')])) 0 =
       (Inr (text_response
          (''Repository directory structure:'' @ nl @ nl @ ''Folder: src/'' @ nl
           @ ''Folder: docs/'' @ nl @ ''File: README.md'' @ nl)), 1)"
proof -
  have h1: "GetRepositoryTreeSchema documented_schemas [(''project_id'', JStr ''42'')] =
     Inr \<lparr>get_repository_tree_args.project_id = ''42'', get_repository_tree_args.path = None,
          get_repository_tree_args.ref = None, recursive = None,
          get_repository_tree_args.per_page = None\<rparr>"
    by code_simp
  have h2: "getRepositoryTree mock_api
      (get_repository_tree_args.project_id
         \<lparr>get_repository_tree_args.project_id = ''42'', get_repository_tree_args.path = None,
          get_repository_tree_args.ref = None, recursive = None,
          get_repository_tree_args.per_page = None\<rparr>)
      (get_repository_tree_args.path
         \<lparr>get_repository_tree_args.project_id = ''42'', get_repository_tree_args.path = None,
          get_repository_tree_args.ref = None, recursive = None,
          get_repository_tree_args.per_page = None\<rparr>)
      (get_repository_tree_args.ref
         \<lparr>get_repository_tree_args.project_id = ''42'', get_repository_tree_args.path = None,
          get_repository_tree_args.ref = None, recursive = None,
          get_repository_tree_args.per_page = None\<rparr>)
      (recursive
         \<lparr>get_repository_tree_args.project_id = ''42'', get_repository_tree_args.path = None,
          get_repository_tree_args.ref = None, recursive = None,
          get_repository_tree_args.per_page = None\<rparr>)
      (get_repository_tree_args.per_page
         \<lparr>get_repository_tree_args.project_id = ''42'', get_repository_tree_args.path = None,
          get_repository_tree_args.ref = None, recursive = None,
          get_repository_tree_args.per_page = None\<rparr>) (0::nat) = (Inr mock_tree, 1)"
    by (simp add: mock_api_def)
  have h3: "getRepositoryTree mock_api ''42'' None None None None 0 = (Inr mock_tree, 1)"
    by (simp add: mock_api_def)
  from tree_listing [OF h1 h2, where cfg = "\<lparr>isReadOnly = False\<rparr>"] h1 h3
  show ?thesis by (simp add: mock_tree_def)
qed

subsection \<open>The server keeps no state of its own\<close>




subsection \<open>The read-only flag\<close>



subsection \<open>The source ref of a new branch\<close>

text \<open>
  Claim C4, as the code has it. When the \<^verbatim>\<open>ref\<close> argument of a \<^verbatim>\<open>create_branch\<close>
  request is omitted or is the empty string, the operation first asks for the project's
  default branch and, when that call resolves, creates the branch from it. When a
  non-empty \<^verbatim>\<open>ref\<close> is supplied, the branch is created from it and the default branch
  is not asked for.
\<close>

theorem create_branch_source_ref:
  assumes "CreateBranchSchema sch a = Inr args"
    and "call_tool cfg sch (recording api) (request_for ''create_branch'' (Some a)) (log, w)
           = (r, (log', w'))"
  shows "if create_branch_args.ref args = None \<or> create_branch_args.ref args = Some []
         then (case getDefaultBranchRef api (create_branch_args.project_id args) w of
                 (Inl e, w1) \<Rightarrow>
                   log' = log @ [(GetDefaultBranchRef (create_branch_args.project_id args), Inl e)]
               | (Inr d, w1) \<Rightarrow>
                   (\<exists>v. log' =
                      log @ [(GetDefaultBranchRef (create_branch_args.project_id args),
                              Inr (BranchRef d)),
                             (CreateBranch (create_branch_args.project_id args)
                                \<lparr>branch_options.name = create_branch_args.branch args,
                                 branch_options.ref = d\<rparr>, v)]))
         else (\<exists>v. log' =
                 log @ [(CreateBranch (create_branch_args.project_id args)
                           \<lparr>branch_options.name = create_branch_args.branch args,
                            branch_options.ref = the (create_branch_args.ref args)\<rparr>, v)])"
proof (cases "create_branch_args.ref args = None \<or> create_branch_args.ref args = Some []")
  case True
  with assms show ?thesis
    by (auto simp: call_tool_def try_block_dispatch create_branch_default_run
        split: prod.splits sum.splits)
next
  case False
  then obtain r0 where "create_branch_args.ref args = Some r0" "r0 \<noteq> []" by auto
  with assms show ?thesis
    by (auto simp: call_tool_def try_block_dispatch create_branch_given_run
        split: prod.splits sum.splits)
qed

theorem create_branch_source_ref_witness:
  "CreateBranchSchema documented_schemas
      [(''project_id'', JStr ''42''), (''branch'', JStr ''dev''), (''ref'', JStr ''release'')] =
     Inr \<lparr>create_branch_args.project_id = ''42'', create_branch_args.branch = ''dev'',
          create_branch_args.ref = Some ''release''\<rparr>
   \<and> (\<exists>v. fst (snd (call_tool \<lparr>isReadOnly = False\<rparr> documented_schemas (recording mock_api)
          (request_for ''create_branch''
             (Some [(''project_id'', JStr ''42''), (''branch'', JStr ''dev''),
                    (''ref'', JStr ''release'')])) ([], 0))) =
        [(CreateBranch ''42''
            \<lparr>branch_options.name = ''dev'', branch_options.ref = ''release''\<rparr>, v)])
   \<and> CreateBranchSchema documented_schemas
      [(''project_id'', JStr ''42''), (''branch'', JStr ''dev'')] =
     Inr \<lparr>create_branch_args.project_id = ''42'', create_branch_args.branch = ''dev'',
          create_branch_args.ref = None\<rparr>
   \<and> (\<exists>v. fst (snd (call_tool \<lparr>isReadOnly = False\<rparr> documented_schemas (recording mock_api)
          (request_for ''create_branch''
             (Some [(''project_id'', JStr ''42''), (''branch'', JStr ''dev'')])) ([], 0))) =
        [(GetDefaultBranchRef ''42'', Inr (BranchRef ''main'')),
         (CreateBranch ''42''
            \<lparr>branch_options.name = ''dev'', branch_options.ref = ''main''\<rparr>, v)])"
proof -
  have g: "CreateBranchSchema documented_schemas
      [(''project_id'', JStr ''42''), (''branch'', JStr ''dev''), (''ref'', JStr ''release'')] =
     Inr \<lparr>create_branch_args.project_id = ''42'', create_branch_args.branch = ''dev'',
          create_branch_args.ref = Some ''release''\<rparr>"
    by code_simp
  have d: "CreateBranchSchema documented_schemas
      [(''project_id'', JStr ''42''), (''branch'', JStr ''dev'')] =
     Inr \<lparr>create_branch_args.project_id = ''42'', create_branch_args.branch = ''dev'',
          create_branch_args.ref = None\<rparr>"
    by code_simp
  have run: "\<And>x :: (error + response) \<times> exchange list \<times> nat.
    x = (fst x, (fst (snd x), snd (snd x)))"
    by simp
  from create_branch_source_ref [OF g run, where cfg = "\<lparr>isReadOnly = False\<rparr>"
      and api = mock_api and log = "[]" and w = "0::nat"]
  have 1: "\<exists>v. fst (snd (call_tool \<lparr>isReadOnly = False\<rparr> documented_schemas (recording mock_api)
          (request_for ''create_branch''
             (Some [(''project_id'', JStr ''42''), (''branch'', JStr ''dev''),
                    (''ref'', JStr ''release'')])) ([], 0))) =
        [(CreateBranch ''42''
            \<lparr>branch_options.name = ''dev'', branch_options.ref = ''release''\<rparr>, v)]"
    by simp
  from create_branch_source_ref [OF d run, where cfg = "\<lparr>isReadOnly = False\<rparr>"
      and api = mock_api and log = "[]" and w = "0::nat"]
  have 2: "\<exists>v. fst (snd (call_tool \<lparr>isReadOnly = False\<rparr> documented_schemas (recording mock_api)
          (request_for ''create_branch''
             (Some [(''project_id'', JStr ''42''), (''branch'', JStr ''dev'')])) ([], 0))) =
        [(GetDefaultBranchRef ''42'', Inr (BranchRef ''main'')),
         (CreateBranch ''42''
            \<lparr>branch_options.name = ''dev'', branch_options.ref = ''main''\<rparr>, v)]"
    by (simp add: mock_api_def)
  from g d 1 2 show ?thesis by blast
qed

text \<open>
  Claim C4 as written says that a supplied \<^verbatim>\<open>ref\<close> is used as given and the default
  branch is not consulted. The empty string is a \<^verbatim>\<open>ref\<close> the documented schema
  accepts, yet \<^verbatim>\<open>if (!ref)\<close> treats it as absent: the default branch is asked for
  and the branch is created from it.
\<close>

theorem empty_ref_consults_default_branch:
  "CreateBranchSchema documented_schemas
      [(''project_id'', JStr ''42''), (''branch'', JStr ''dev''), (''ref'', JStr [])] =
     Inr \<lparr>create_branch_args.project_id = ''42'', create_branch_args.branch = ''dev'',
          create_branch_args.ref = Some []\<rparr>
   \<and> fst (snd (call_tool \<lparr>isReadOnly = False\<rparr> documented_schemas (recording mock_api)
        (request_for ''create_branch''
           (Some [(''project_id'', JStr ''42''), (''branch'', JStr ''dev''), (''ref'', JStr [])]))
        ([], 0))) =
     [(GetDefaultBranchRef ''42'', Inr (BranchRef ''main'')),
      (CreateBranch ''42'' \<lparr>branch_options.name = ''dev'', branch_options.ref = ''main''\<rparr>,
       Inr (Body (JObj [(''name'', JStr ''dev''), (''ref'', JStr ''main'')])))]"
  by code_simp

subsection \<open>What the response carries\<close>

text \<open>
  Claim C1, as the code has it. For every tool operation other than
  \<^verbatim>\<open>get_repository_tree\<close>, a response returned to the caller is the envelope with one
  text item whose text is \<^verbatim>\<open>JSON.stringify(result, null, 2)\<close> of the body that the
  last API call of the request resolved to: the body is not reshaped, filtered or
  reformatted. For \<^verbatim>\<open>get_repository_tree\<close> the text is the formatted listing of the
  tree that the API call resolved to.
\<close>

theorem responses_forward_api_result:
  assumes "advertised_schema n = Some S"
    and "call_tool cfg sch (recording api) (request_for n (Some a)) (log, w)
           = (Inr resp, (log', w'))"
  shows "\<exists>xs c. log' = log @ xs \<and> xs \<noteq> [] \<and>
           (if n = ''get_repository_tree''
            then \<exists>t. last xs = (c, Inr (Tree t)) \<and> resp = text_response (format_tree t)
            else \<exists>b. last xs = (c, Inr (Body b)) \<and> resp = text_response (stringify b))"
proof (cases "schema_check sch S a")
  case (Some issues)
  from assms(2) show ?thesis
    by (simp add: call_tool_def rejected_case [OF assms(1) Some])
next
  case None
  show ?thesis
  proof (cases "n = ''create_branch''")
    case False
    with advertised_schema_cases [OF assms(1)] None assms(2) show ?thesis
      by (elim disjE conjE;
          auto simp: call_tool_def try_block_dispatch rejects_None run_lemmas
            split: prod.splits sum.splits)
  next
    case True
    with advertised_schema_cases [OF assms(1)] have "S = OfCreateBranchSchema" by simp
    with None obtain args where args: "CreateBranchSchema sch a = Inr args"
      by (auto simp: rejects_None)
    show ?thesis
    proof (cases "create_branch_args.ref args = None \<or> create_branch_args.ref args = Some []")
      case d: True
      with assms(2) True args show ?thesis
        by (auto simp: call_tool_def try_block_dispatch create_branch_default_run
            split: prod.splits sum.splits)
    next
      case False
      then obtain r0 where "create_branch_args.ref args = Some r0" "r0 \<noteq> []" by auto
      with assms(2) True args show ?thesis
        by (auto simp: call_tool_def try_block_dispatch create_branch_given_run
            split: prod.splits sum.splits)
    qed
  qed
qed

theorem responses_forward_api_result_witness:
  "advertised_schema ''fork_repository'' = Some OfForkRepositorySchema
   \<and> call_tool \<lparr>isReadOnly = False\<rparr> documented_schemas (recording mock_api)
        (request_for ''fork_repository'' (Some [(''project_id'', JStr ''42'')])) ([], 0) =
       (Inr (text_response (stringify (JObj [(''forked_from'', JStr ''42'')]))),
        ([(ForkProject ''42'' None, Inr (Body (JObj [(''forked_from'', JStr ''42'')])))], 1))
   \<and> (\<exists>xs c b. [(ForkProject ''42'' None, Inr (Body (JObj [(''forked_from'', JStr ''42'')])))]
                   = xs \<and> xs \<noteq> [] \<and> last xs = (c, Inr (Body b))
                 \<and> text_response (stringify (JObj [(''forked_from'', JStr ''42'')]))
                     = text_response (stringify b))"
proof -
  have h1: "advertised_schema ''fork_repository'' = Some OfForkRepositorySchema"
    by code_simp
  have h2: "call_tool \<lparr>isReadOnly = False\<rparr> documented_schemas (recording mock_api)
        (request_for ''fork_repository'' (Some [(''project_id'', JStr ''42'')])) ([], 0) =
       (Inr (text_response (stringify (JObj [(''forked_from'', JStr ''42'')]))),
        ([(ForkProject ''42'' None, Inr (Body (JObj [(''forked_from'', JStr ''42'')])))], 1))"
    by code_simp
  from responses_forward_api_result [OF h1 h2]
  have "\<exists>xs c b. [(ForkProject ''42'' None, Inr (Body (JObj [(''forked_from'', JStr ''42'')])))]
                   = xs \<and> xs \<noteq> [] \<and> last xs = (c, Inr (Body b))
                 \<and> text_response (stringify (JObj [(''forked_from'', JStr ''42'')]))
                     = text_response (stringify b)"
    by simp
  with h1 h2 show ?thesis by blast
qed

text \<open>
  Claim C1 as written covers every tool operation. The \<^verbatim>\<open>get_repository_tree\<close> case
  does not serialise the API's answer: the entry of type \<^verbatim>\<open>commit\<close>, and the
  \<^verbatim>\<open>id\<close>, \<^verbatim>\<open>name\<close> and \<^verbatim>\<open>mode\<close> of every entry, are absent from the text it returns.
\<close>

theorem tree_response_is_not_the_api_result:
  "call_tool \<lparr>isReadOnly = False\<rparr> documented_schemas (recording mock_api)
      (request_for ''get_repository_tree'' (Some [(''project_id'', JStr ''42'')])) ([], 0) =
     (Inr (text_response
        (''Repository directory structure:'' @ nl @ nl @ ''Folder: src/'' @ nl
         @ ''Folder: docs/'' @ nl @ ''File: README.md'' @ nl)),
      ([(GetRepositoryTree ''42'' None None None None, Inr (Tree mock_tree))], 1))
   \<and> ''Repository directory structure:'' @ nl @ nl @ ''Folder: src/'' @ nl
       @ ''Folder: docs/'' @ nl @ ''File: README.md'' @ nl
     \<noteq> stringify (tree_json mock_tree)"
  by code_simp

subsection \<open>How many API calls a request makes\<close>

text \<open>
  Claim C3, as the code has it. An API function of \<^verbatim>\<open>gitlab-api.js\<close> stands for one
  request to GitLab. For every tool operation and every accepted arguments object,
  handling a request invokes exactly one API function, except for \<^verbatim>\<open>create_branch\<close>
  with \<^verbatim>\<open>ref\<close> omitted or empty: there \<^verbatim>\<open>getDefaultBranchRef\<close> is invoked first and,
  when it resolves, \<^verbatim>\<open>createBranch\<close> second. The request ends in one response, or in
  the failure of the last call made.
\<close>

theorem api_calls_per_request:
  assumes "advertised_schema n = Some S" and "schema_check sch S a = None"
    and "call_tool cfg sch (recording api) (request_for n (Some a)) (log, w) = (r, (log', w'))"
  shows "(if n = ''create_branch'' \<and>
            (\<exists>args. CreateBranchSchema sch a = Inr args \<and>
               (create_branch_args.ref args = None \<or> create_branch_args.ref args = Some []))
         then (\<exists>p e. log' = log @ [(GetDefaultBranchRef p, Inl e)]) \<or>
              (\<exists>p d opts v. log' = log @ [(GetDefaultBranchRef p, Inr (BranchRef d)),
                                           (CreateBranch p opts, v)])
         else (\<exists>c v. log' = log @ [(c, v)] \<and> api_function c \<noteq> ''getDefaultBranchRef''))
       \<and> ((\<exists>t. r = Inr (text_response t)) \<or> (\<exists>c e. last log' = (c, Inl e) \<and> r = Inl (catch_block e)))"
proof (cases "n = ''create_branch''")
  case False
  with advertised_schema_cases [OF assms(1)] assms(2,3) show ?thesis
    by (elim disjE conjE;
        auto simp: call_tool_def try_block_dispatch rejects_None run_lemmas api_function_def
          split: prod.splits sum.splits)
next
  case True
  with advertised_schema_cases [OF assms(1)] have S: "S = OfCreateBranchSchema" by simp
  with assms(2) obtain args where args: "CreateBranchSchema sch a = Inr args"
    by (auto simp: rejects_None)
  show ?thesis
  proof (cases "create_branch_args.ref args = None \<or> create_branch_args.ref args = Some []")
    case d: True
    with assms(3) True args show ?thesis
      by (auto simp: call_tool_def try_block_dispatch create_branch_default_run split: prod.splits sum.splits)
  next
    case g: False
    then obtain r0 where "create_branch_args.ref args = Some r0" "r0 \<noteq> []" by auto
    with assms(3) True args show ?thesis
      by (auto simp: call_tool_def try_block_dispatch create_branch_given_run api_function_def split: prod.splits sum.splits)
  qed
qed

theorem api_calls_per_request_witness:
  "advertised_schema ''create_branch'' = Some OfCreateBranchSchema
   \<and> schema_check documented_schemas OfCreateBranchSchema
        [(''project_id'', JStr ''42''), (''branch'', JStr ''dev'')] = None
   \<and> ((\<exists>p e. fst (snd (call_tool \<lparr>isReadOnly = False\<rparr> documented_schemas
          (recording mock_api)
          (request_for ''create_branch''
             (Some [(''project_id'', JStr ''42''), (''branch'', JStr ''dev'')])) ([], 0))) =
             [(GetDefaultBranchRef p, Inl e)])
        \<or> (\<exists>p d opts v. fst (snd (call_tool \<lparr>isReadOnly = False\<rparr> documented_schemas
          (recording mock_api)
          (request_for ''create_branch''
             (Some [(''project_id'', JStr ''42''), (''branch'', JStr ''dev'')])) ([], 0))) =
             [(GetDefaultBranchRef p, Inr (BranchRef d)), (CreateBranch p opts, v)]))
   \<and> advertised_schema ''fork_repository'' = Some OfForkRepositorySchema
   \<and> schema_check documented_schemas OfForkRepositorySchema [(''project_id'', JStr ''42'')] = None
   \<and> (\<exists>c v. fst (snd (call_tool \<lparr>isReadOnly = False\<rparr> documented_schemas
          (recording mock_api)
          (request_for ''fork_repository'' (Some [(''project_id'', JStr ''42'')])) ([], 0))) =
             [(c, v)])"
proof -
  have b1: "advertised_schema ''create_branch'' = Some OfCreateBranchSchema"
    by code_simp
  have b2: "schema_check documented_schemas OfCreateBranchSchema
        [(''project_id'', JStr ''42''), (''branch'', JStr ''dev'')] = None"
    by code_simp
  have b3: "CreateBranchSchema documented_schemas
      [(''project_id'', JStr ''42''), (''branch'', JStr ''dev'')] =
     Inr \<lparr>create_branch_args.project_id = ''42'', create_branch_args.branch = ''dev'',
          create_branch_args.ref = None\<rparr>"
    by code_simp
  have f1: "advertised_schema ''fork_repository'' = Some OfForkRepositorySchema"
    by code_simp
  have f2: "schema_check documented_schemas OfForkRepositorySchema
        [(''project_id'', JStr ''42'')] = None"
    by code_simp
  have run: "\<And>x :: (error + response) \<times> exchange list \<times> nat.
    x = (fst x, (fst (snd x), snd (snd x)))"
    by simp
  from api_calls_per_request [OF b1 b2 run, where cfg = "\<lparr>isReadOnly = False\<rparr>"
      and api = mock_api and log = "[]" and w = "0::nat"] b3
  have 1: "(\<exists>p e. fst (snd (call_tool \<lparr>isReadOnly = False\<rparr> documented_schemas
          (recording mock_api)
          (request_for ''create_branch''
             (Some [(''project_id'', JStr ''42''), (''branch'', JStr ''dev'')])) ([], 0))) =
             [(GetDefaultBranchRef p, Inl e)])
        \<or> (\<exists>p d opts v. fst (snd (call_tool \<lparr>isReadOnly = False\<rparr> documented_schemas
          (recording mock_api)
          (request_for ''create_branch''
             (Some [(''project_id'', JStr ''42''), (''branch'', JStr ''dev'')])) ([], 0))) =
             [(GetDefaultBranchRef p, Inr (BranchRef d)), (CreateBranch p opts, v)])"
    by simp
  from api_calls_per_request [OF f1 f2 run, where cfg = "\<lparr>isReadOnly = False\<rparr>"
      and api = mock_api and log = "[]" and w = "0::nat"]
  have 2: "\<exists>c v. fst (snd (call_tool \<lparr>isReadOnly = False\<rparr> documented_schemas
          (recording mock_api)
          (request_for ''fork_repository'' (Some [(''project_id'', JStr ''42'')])) ([], 0))) =
             [(c, v)]"
    by auto
  from b1 b2 f1 f2 1 2 show ?thesis by blast
qed

text \<open>
  Claim C3 as written says one outgoing call for every request. A \<^verbatim>\<open>create_branch\<close>
  request without \<^verbatim>\<open>ref\<close> makes two: the mocked GitLab has served two requests when
  the response is returned.
\<close>

theorem create_branch_makes_two_calls:
  "call_tool \<lparr>isReadOnly = False\<rparr> documented_schemas (recording mock_api)
      (request_for ''create_branch''
         (Some [(''project_id'', JStr ''42''), (''branch'', JStr ''dev'')])) ([], 0) =
     (Inr (text_response (stringify (JObj [(''name'', JStr ''dev''), (''ref'', JStr ''main'')]))),
      ([(GetDefaultBranchRef ''42'', Inr (BranchRef ''main'')),
        (CreateBranch ''42'' \<lparr>branch_options.name = ''dev'', branch_options.ref = ''main''\<rparr>,
         Inr (Body (JObj [(''name'', JStr ''dev''), (''ref'', JStr ''main'')])))], 2))
   \<and> length (fst (snd (call_tool \<lparr>isReadOnly = False\<rparr> documented_schemas (recording mock_api)
      (request_for ''create_branch''
         (Some [(''project_id'', JStr ''42''), (''branch'', JStr ''dev'')])) ([], 0)))) \<noteq> 1"
  by code_simp

subsection \<open>Failures other than validation\<close>




end
